theory Spec2Isabelle
  imports Complex_Main
begin

section \<open>JavaScript values as the OCR route sees them\<close>

text \<open>
  The recognition payload is whatever \<^verbatim>\<open>ocrResponse.json()\<close> returns, so it is modelled as a
  JSON value tree. Strings are lists of code units below 256; a finite number is the
  exact rational it denotes (rounding to binary64 and the sign of zero are not
  modelled); an object is its property table, read with \<open>map_of\<close>.
\<close>

datatype jsnum = Fin rat | NaN | PosInf | NegInf

datatype jsval =
    Undefined
  | Null
  | Bool bool
  | Num jsnum
  | Str string
  | Arr "jsval list"
  | Obj "(string \<times> jsval) list"

text \<open>
  What the code can throw: a \<^verbatim>\<open>TypeError\<close> of the language, an error made by
  \<^verbatim>\<open>createError(message, statusCode)\<close>, and a failure reported by an external
  collaborator (image library, network, storage).
\<close>

datatype exn = TypeError | AppError string nat | ExtError string

text \<open>
  Library behaviour the route relies on but does not define is a parameter:
  \<^verbatim>\<open>Number::toString\<close>, the conversion of a string to a number, the clock
  (\<open>clock i k\<close> is the \<open>k\<close>-th reading taken while element \<open>i\<close> of a
  \<^verbatim>\<open>forEach\<close> is processed) and \<^verbatim>\<open>Date.prototype.toISOString\<close>.
\<close>

record runtime =
  numToString :: "jsnum \<Rightarrow> string"
  stringToNumber :: "string \<Rightarrow> jsnum"
  clock :: "nat \<Rightarrow> nat \<Rightarrow> nat"
  toISOString :: "nat \<Rightarrow> string"

definition bind_exn :: "exn + 'a \<Rightarrow> ('a \<Rightarrow> exn + 'b) \<Rightarrow> exn + 'b" where
  "bind_exn m f = (case m of Inl e \<Rightarrow> Inl e | Inr x \<Rightarrow> f x)"

text \<open>\<^verbatim>\<open>ToBoolean\<close>: the test behind \<^verbatim>\<open>||\<close>, \<^verbatim>\<open>&&\<close>, \<^verbatim>\<open>!\<close> and \<^verbatim>\<open>if\<close>.\<close>

fun truthy :: "jsval \<Rightarrow> bool" where
  "truthy Undefined = False"
| "truthy Null = False"
| "truthy (Bool b) = b"
| "truthy (Num (Fin q)) = (q \<noteq> 0)"
| "truthy (Num NaN) = False"
| "truthy (Num PosInf) = True"
| "truthy (Num NegInf) = True"
| "truthy (Str s) = (s \<noteq> [])"
| "truthy (Arr xs) = True"
| "truthy (Obj kvs) = True"

definition js_or :: "jsval \<Rightarrow> jsval \<Rightarrow> jsval" where
  "js_or a b = (if truthy a then a else b)"

text \<open>
  Reading a property of a JSON value, for the names the route reads (\<^verbatim>\<open>text\<close>,
  \<^verbatim>\<open>items\<close>, \<^verbatim>\<open>name\<close>, \<^verbatim>\<open>length\<close>, ...: none is an index and none is inherited
  from a prototype other than \<^verbatim>\<open>length\<close>). Reading from \<^verbatim>\<open>null\<close> or
  \<^verbatim>\<open>undefined\<close> throws.
\<close>

fun get_prop :: "jsval \<Rightarrow> string \<Rightarrow> exn + jsval" where
  "get_prop Undefined k = Inl TypeError"
| "get_prop Null k = Inl TypeError"
| "get_prop (Bool b) k = Inr Undefined"
| "get_prop (Num n) k = Inr Undefined"
| "get_prop (Str s) k =
     Inr (if k = ''length'' then Num (Fin (of_nat (length s))) else Undefined)"
| "get_prop (Arr xs) k =
     Inr (if k = ''length'' then Num (Fin (of_nat (length xs))) else Undefined)"
| "get_prop (Obj kvs) k = Inr (case map_of kvs k of None \<Rightarrow> Undefined | Some v \<Rightarrow> v)"

text \<open>
  Conversion to a string, as \<^verbatim>\<open>x + ' '\<close>, \<^verbatim>\<open>x.toString()\<close> and \<^verbatim>\<open>Array.prototype.join\<close>
  perform it on a JSON value. A plain object answers \<^verbatim>\<open>[object Object]\<close> through the
  inherited method; an own property named \<^verbatim>\<open>toString\<close> shadows that method with a value
  that is not callable, and the conversion throws. An array joins its elements with
  commas, \<^verbatim>\<open>null\<close> and \<^verbatim>\<open>undefined\<close> elements giving the empty string.
\<close>

fun to_str :: "runtime \<Rightarrow> jsval \<Rightarrow> exn + string"
  and join_elems :: "runtime \<Rightarrow> jsval list \<Rightarrow> exn + string" where
  "to_str rt Undefined = Inr ''undefined''"
| "to_str rt Null = Inr ''null''"
| "to_str rt (Bool b) = Inr (if b then ''true'' else ''false'')"
| "to_str rt (Num n) = Inr (numToString rt n)"
| "to_str rt (Str s) = Inr s"
| "to_str rt (Arr xs) = join_elems rt xs"
| "to_str rt (Obj kvs) =
     (if map_of kvs ''toString'' \<noteq> None then Inl TypeError else Inr ''[object Object]'')"
| "join_elems rt [] = Inr []"
| "join_elems rt (x # xs) =
     (case (if x = Undefined \<or> x = Null then Inr [] else to_str rt x) of
        Inl e \<Rightarrow> Inl e
      | Inr s \<Rightarrow>
          (if xs = [] then Inr s
           else (case join_elems rt xs of
                   Inl e \<Rightarrow> Inl e
                 | Inr t \<Rightarrow> Inr (s @ '','' @ t))))"

text \<open>The comparison \<^verbatim>\<open>x > 2\<close>: \<open>x\<close> is made primitive, then a number.\<close>

fun num_gt2 :: "jsnum \<Rightarrow> bool" where
  "num_gt2 (Fin q) = (2 < q)"
| "num_gt2 NaN = False"
| "num_gt2 PosInf = True"
| "num_gt2 NegInf = False"

fun js_gt2 :: "runtime \<Rightarrow> jsval \<Rightarrow> exn + bool" where
  "js_gt2 rt Undefined = Inr False"
| "js_gt2 rt Null = Inr False"
| "js_gt2 rt (Bool b) = Inr False"
| "js_gt2 rt (Num n) = Inr (num_gt2 n)"
| "js_gt2 rt (Str s) = Inr (num_gt2 (stringToNumber rt s))"
| "js_gt2 rt (Arr xs) =
     bind_exn (to_str rt (Arr xs)) (\<lambda>s. Inr (num_gt2 (stringToNumber rt s)))"
| "js_gt2 rt (Obj kvs) =
     bind_exn (to_str rt (Obj kvs)) (\<lambda>s. Inr (num_gt2 (stringToNumber rt s)))"

section \<open>Strings\<close>

definition is_digit :: "char \<Rightarrow> bool" where
  "is_digit c = (c \<in> set ''0123456789'')"

text \<open>\<^verbatim>\<open>String.prototype.toLowerCase\<close> on code units below 256.\<close>

definition upper_chars :: string where
  "upper_chars = ''ABCDEFGHIJKLMNOPQRSTUVWXYZ'' @
     [CHR 0xC0, CHR 0xC1, CHR 0xC2, CHR 0xC3, CHR 0xC4, CHR 0xC5, CHR 0xC6, CHR 0xC7,
      CHR 0xC8, CHR 0xC9, CHR 0xCA, CHR 0xCB, CHR 0xCC, CHR 0xCD, CHR 0xCE, CHR 0xCF,
      CHR 0xD0, CHR 0xD1, CHR 0xD2, CHR 0xD3, CHR 0xD4, CHR 0xD5, CHR 0xD6,
      CHR 0xD8, CHR 0xD9, CHR 0xDA, CHR 0xDB, CHR 0xDC, CHR 0xDD, CHR 0xDE]"

definition lower_chars :: string where
  "lower_chars = ''abcdefghijklmnopqrstuvwxyz'' @
     [CHR 0xE0, CHR 0xE1, CHR 0xE2, CHR 0xE3, CHR 0xE4, CHR 0xE5, CHR 0xE6, CHR 0xE7,
      CHR 0xE8, CHR 0xE9, CHR 0xEA, CHR 0xEB, CHR 0xEC, CHR 0xED, CHR 0xEE, CHR 0xEF,
      CHR 0xF0, CHR 0xF1, CHR 0xF2, CHR 0xF3, CHR 0xF4, CHR 0xF5, CHR 0xF6,
      CHR 0xF8, CHR 0xF9, CHR 0xFA, CHR 0xFB, CHR 0xFC, CHR 0xFD, CHR 0xFE]"

definition lower_char :: "char \<Rightarrow> char" where
  "lower_char c = (case map_of (zip upper_chars lower_chars) c of None \<Rightarrow> c | Some d \<Rightarrow> d)"

definition toLowerCase :: "string \<Rightarrow> string" where
  "toLowerCase s = map lower_char s"

fun starts_with :: "string \<Rightarrow> string \<Rightarrow> bool" where
  "starts_with s [] = True"
| "starts_with [] (p # ps) = False"
| "starts_with (c # cs) (p # ps) = (c = p \<and> starts_with cs ps)"

text \<open>\<^verbatim>\<open>String.prototype.includes\<close>: some suffix of the string starts with the pattern.\<close>

fun str_includes :: "string \<Rightarrow> string \<Rightarrow> bool" where
  "str_includes [] p = (p = [])"
| "str_includes (c # cs) p = (starts_with (c # cs) p \<or> str_includes cs p)"

text \<open>
  \<^verbatim>\<open>String.prototype.trim\<close>: white space and line terminators below 256 are tab, line
  feed, vertical tab, form feed, carriage return, space and no-break space.
\<close>

definition is_space :: "char \<Rightarrow> bool" where
  "is_space c = (c \<in> set [CHR 0x09, CHR 0x0A, CHR 0x0B, CHR 0x0C, CHR 0x0D, CHR 0x20, CHR 0xA0])"

definition trim :: "string \<Rightarrow> string" where
  "trim s = rev (dropWhile is_space (rev (dropWhile is_space s)))"

text \<open>Decimal rendering of a non-negative integer, as a template literal prints it.\<close>

definition digit_char :: "nat \<Rightarrow> char" where
  "digit_char d = ''0123456789'' ! d"

fun dec :: "nat \<Rightarrow> string" where
  "dec n = (if n < 10 then [digit_char n] else dec (n div 10) @ [digit_char (n mod 10)])"

declare dec.simps [simp del]

text \<open>
  \<^verbatim>\<open>parseFloat\<close> on a string of digits and periods, the only strings the route gives it:
  the longest prefix that is a decimal literal (digits, then optionally a period and
  digits; or a period and at least one digit), \<open>NaN\<close> when there is none. The result is
  the exact value of the literal: rounding to the nearest binary64 number, and with it
  the overflow of a very long digit string to \<^verbatim>\<open>Infinity\<close>, is not modelled.
\<close>

definition digit_val :: "char \<Rightarrow> nat" where
  "digit_val c = (case map_of (zip ''0123456789'' [0, 1, 2, 3, 4, 5, 6, 7, 8, 9]) c of
                    None \<Rightarrow> 0 | Some d \<Rightarrow> d)"

definition digits_val :: "string \<Rightarrow> nat" where
  "digits_val ds = foldl (\<lambda>acc c. 10 * acc + digit_val c) 0 ds"

definition parseFloat :: "string \<Rightarrow> jsnum" where
  "parseFloat s =
     (let ip = takeWhile is_digit s;
          rest = dropWhile is_digit s;
          fp = (case rest of [] \<Rightarrow> [] | c # r \<Rightarrow> if c = CHR ''.'' then takeWhile is_digit r else [])
      in if ip = [] \<and> fp = [] then NaN
         else Fin (of_nat (digits_val ip) + of_nat (digits_val fp) / 10 ^ length fp))"

section \<open>parsePrice and determineTags\<close>

text \<open>
  \<^verbatim>\<open>parsePrice(priceStr)\<close>: a number is returned as it is; a falsy value gives
  \<^verbatim>\<open>null\<close> (\<open>None\<close>); anything else is converted with \<^verbatim>\<open>toString()\<close>, stripped of every
  character that is not a digit or a period, and parsed.
\<close>

definition parsePrice :: "runtime \<Rightarrow> jsval \<Rightarrow> exn + jsnum option" where
  "parsePrice rt priceStr =
     (case priceStr of
        Num n \<Rightarrow> Inr (Some n)
      | _ \<Rightarrow>
          if \<not> truthy priceStr then Inr None
          else bind_exn (to_str rt priceStr) (\<lambda>s.
                 let cleaned = filter (\<lambda>c. is_digit c \<or> c = CHR ''.'') s;
                     parsed = parseFloat cleaned
                 in Inr (if parsed = NaN then None else Some parsed)))"

text \<open>
  \<^verbatim>\<open>determineTags(item, menuType)\<close>. The text is
  \<^verbatim>\<open>(item.name + ' ' + (item.description || '')).toLowerCase()\<close>.
\<close>

definition push_if :: "bool \<Rightarrow> string \<Rightarrow> string list \<Rightarrow> string list" where
  "push_if b t tags = (if b then tags @ [t] else tags)"

definition tags_of_text :: "string \<Rightarrow> string \<Rightarrow> string list" where
  "tags_of_text itemText menuType =
     (let tags = [];
          tags = (if menuType = ''signature_cocktails''
                  then push_if (str_includes itemText ''premium'' \<or> str_includes itemText ''top shelf'')
                         ''premium'' (tags @ [''signature''])
                  else tags);
          tags = (if menuType = ''wine_list''
                  then push_if (str_includes itemText ''sparkling'' \<or> str_includes itemText ''champagne'')
                         ''sparkling''
                        (push_if (str_includes itemText ''white'') ''white''
                        (push_if (str_includes itemText ''red'') ''red''
                        (push_if (str_includes itemText ''reserve'' \<or> str_includes itemText ''vintage'')
                           ''reserve'' tags)))
                  else tags);
          tags = push_if (str_includes itemText ''featured'' \<or> str_includes itemText ''special'')
                   ''featured'' tags;
          tags = push_if (str_includes itemText ''new'' \<or> str_includes itemText ''limited'')
                   ''limited'' tags
      in tags)"

definition determineTags :: "runtime \<Rightarrow> jsval \<Rightarrow> string \<Rightarrow> exn + string list" where
  "determineTags rt item menuType =
     bind_exn (get_prop item ''name'') (\<lambda>nm.
     bind_exn (to_str rt nm) (\<lambda>s1.
     bind_exn (get_prop item ''description'') (\<lambda>d.
     bind_exn (to_str rt (js_or d (Str []))) (\<lambda>s2.
       Inr (tags_of_text (toLowerCase (s1 @ '' '' @ s2)) menuType)))))"

section \<open>Draft menu items\<close>

text \<open>
  The object literal both extractors build. \<open>name\<close> and \<open>description\<close> hold whatever the
  payload supplied; \<open>price\<close> is a number or \<^verbatim>\<open>null\<close>; \<open>subcategory\<close> is
  \<open>Undefined\<close> where the literal has no such key.
\<close>

record menu_item =
  item_id :: string
  name :: jsval
  description :: jsval
  price :: "jsnum option"
  category :: string
  subcategory :: jsval
  available :: bool
  tags :: "string list"
  created_at :: string
  updated_at :: string

section \<open>parseTextMenu: the raw-text fallback\<close>

text \<open>\<^verbatim>\<open>text.split('\n')\<close>.\<close>

fun split_nl :: "string \<Rightarrow> string list" where
  "split_nl [] = [[]]"
| "split_nl (c # cs) =
     (if c = CHR 0x0A then [] # split_nl cs
      else (case split_nl cs of [] \<Rightarrow> [[c]] | l # ls \<Rightarrow> (c # l) # ls))"

text \<open>
  The pattern \<^verbatim>\<open>\$([0-9]+(?:\.[0-9]{2})?)\<close> tried at the head of a string; the result is
  its group 1: the longest run of digits after the dollar sign, with a period and two
  digits when they follow.
\<close>

definition cents :: "string \<Rightarrow> string" where
  "cents rest =
     (case rest of
        c # a # b # _ \<Rightarrow> if c = CHR ''.'' \<and> is_digit a \<and> is_digit b then [c, a, b] else []
      | _ \<Rightarrow> [])"

definition price_at :: "string \<Rightarrow> string option" where
  "price_at s =
     (case s of
        [] \<Rightarrow> None
      | c # r \<Rightarrow>
          if c = CHR ''$'' \<and> takeWhile is_digit r \<noteq> []
          then Some (takeWhile is_digit r @ cents (dropWhile is_digit r))
          else None)"

text \<open>\<^verbatim>\<open>trimmedLine.match(...)\<close>: the leftmost position where the pattern matches.\<close>

fun price_match :: "string \<Rightarrow> string option" where
  "price_match [] = None"
| "price_match (c # cs) =
     (case price_at (c # cs) of Some g \<Rightarrow> Some g | None \<Rightarrow> price_match cs)"

text \<open>
  \<^verbatim>\<open>trimmedLine.replace(/\$[0-9]+(?:\.[0-9]{2})?.*$/, '')\<close>. The tail \<^verbatim>\<open>.*$\<close> must reach the
  end of the string and \<^verbatim>\<open>.\<close> matches no line terminator, so the match starts at the
  leftmost dollar sign that is followed by a digit and by no line terminator up to the
  end; everything from there on is removed. Without such a position the string is
  unchanged.
\<close>

definition is_line_terminator :: "char \<Rightarrow> bool" where
  "is_line_terminator c = (c = CHR 0x0A \<or> c = CHR 0x0D)"

fun strip_price :: "string \<Rightarrow> string" where
  "strip_price [] = []"
| "strip_price (c # cs) =
     (if c = CHR ''$'' \<and> takeWhile is_digit cs \<noteq> [] \<and> \<not> list_ex is_line_terminator cs
      then []
      else c # strip_price cs)"

definition new_text_item :: "runtime \<Rightarrow> string \<Rightarrow> nat \<Rightarrow> string \<Rightarrow> string \<Rightarrow> menu_item" where
  "new_text_item rt menuType index trimmedLine g =
     \<lparr> item_id = menuType @ ''_manual_'' @ dec (clock rt index 0) @ ''_'' @ dec index,
       name = Str (trim (strip_price trimmedLine)),
       description = Null,
       price = Some (parseFloat g),
       category = menuType,
       subcategory = Undefined,
       available = True,
       tags = [],
       created_at = toISOString rt (clock rt index 1),
       updated_at = toISOString rt (clock rt index 2) \<rparr>"

text \<open>\<^verbatim>\<open>if (currentItem && currentItem.name) items.push(currentItem)\<close>.\<close>

definition flush :: "menu_item list \<Rightarrow> menu_item option \<Rightarrow> menu_item list" where
  "flush items currentItem =
     (case currentItem of
        None \<Rightarrow> items
      | Some cur \<Rightarrow> if truthy (name cur) then items @ [cur] else items)"

text \<open>
  \<^verbatim>\<open>currentItem.description = (currentItem.description ? currentItem.description + ' ' : '') + trimmedLine\<close>;
  the description of a fallback item is \<^verbatim>\<open>null\<close> or a string.
\<close>

definition append_description :: "menu_item \<Rightarrow> string \<Rightarrow> menu_item" where
  "append_description cur trimmedLine =
     cur\<lparr>description :=
       Str ((case description cur of
               Str d \<Rightarrow> if d \<noteq> [] then d @ '' '' else []
             | _ \<Rightarrow> []) @ trimmedLine)\<rparr>"

text \<open>The body of \<^verbatim>\<open>lines.forEach((line, index) => ...)\<close>, from element \<open>index\<close> on.\<close>

fun text_loop ::
  "runtime \<Rightarrow> string \<Rightarrow> nat \<Rightarrow> string list \<Rightarrow> menu_item list \<Rightarrow> menu_item option
     \<Rightarrow> menu_item list \<times> menu_item option" where
  "text_loop rt menuType index [] items currentItem = (items, currentItem)"
| "text_loop rt menuType index (line # rest) items currentItem =
     (let trimmedLine = trim line;
          priceMatch = price_match trimmedLine
      in case priceMatch of
           Some g \<Rightarrow>
             if length trimmedLine > 5
             then text_loop rt menuType (index + 1) rest (flush items currentItem)
                    (Some (new_text_item rt menuType index trimmedLine g))
             else text_loop rt menuType (index + 1) rest items currentItem
         | None \<Rightarrow>
             (case currentItem of
                Some cur \<Rightarrow>
                  if length trimmedLine > 10
                  then text_loop rt menuType (index + 1) rest items
                         (Some (append_description cur trimmedLine))
                  else text_loop rt menuType (index + 1) rest items currentItem
              | None \<Rightarrow> text_loop rt menuType (index + 1) rest items currentItem))"

definition menu_lines :: "string \<Rightarrow> string list" where
  "menu_lines text = filter (\<lambda>line. length (trim line) > 0) (split_nl text)"

text \<open>
  \<^verbatim>\<open>parseTextMenu(text, menuType)\<close>. The argument is whatever
  \<^verbatim>\<open>ocrData.text || ocrData.extracted_text || ''\<close> is; \<^verbatim>\<open>text.split\<close> is a function only
  on a string.
\<close>

definition parseTextMenu :: "runtime \<Rightarrow> jsval \<Rightarrow> string \<Rightarrow> exn + menu_item list" where
  "parseTextMenu rt text menuType =
     (case text of
        Str s \<Rightarrow>
          (case text_loop rt menuType 0 (menu_lines s) [] None of
             (items, currentItem) \<Rightarrow> Inr (flush items currentItem))
      | _ \<Rightarrow> Inl TypeError)"

section \<open>parseOCRResults\<close>

text \<open>The object literal built for one structured record, in the order it is evaluated.\<close>

definition build_item :: "runtime \<Rightarrow> string \<Rightarrow> nat \<Rightarrow> jsval \<Rightarrow> exn + menu_item" where
  "build_item rt menuType index item =
     bind_exn (get_prop item ''name'') (\<lambda>nm.
     bind_exn (get_prop item ''title'') (\<lambda>title.
     bind_exn (get_prop item ''description'') (\<lambda>d.
     bind_exn (get_prop item ''desc'') (\<lambda>d2.
     bind_exn (get_prop item ''price'') (\<lambda>p.
     bind_exn (parsePrice rt p) (\<lambda>pr.
     bind_exn (get_prop item ''category'') (\<lambda>c.
     bind_exn (determineTags rt item menuType) (\<lambda>ts.
       Inr \<lparr> item_id = menuType @ ''_ocr_'' @ dec (clock rt index 0) @ ''_'' @ dec index,
             name = js_or nm (js_or title (Str (''Item '' @ dec (index + 1)))),
             description = js_or d (js_or d2 Null),
             price = pr,
             category = menuType,
             subcategory = js_or c Null,
             available = True,
             tags = ts,
             created_at = toISOString rt (clock rt index 1),
             updated_at = toISOString rt (clock rt index 2) \<rparr>))))))))"

text \<open>
  \<^verbatim>\<open>structuredData.forEach((item, index) => { ...; items.push(menuItem) })\<close>: the items
  pushed so far, and the exception that ended the loop, if one did.
\<close>

fun structured_loop ::
  "runtime \<Rightarrow> string \<Rightarrow> nat \<Rightarrow> jsval list \<Rightarrow> menu_item list \<Rightarrow> menu_item list \<times> exn option" where
  "structured_loop rt menuType index [] items = (items, None)"
| "structured_loop rt menuType index (item # rest) items =
     (case build_item rt menuType index item of
        Inl e \<Rightarrow> (items, Some e)
      | Inr menuItem \<Rightarrow> structured_loop rt menuType (index + 1) rest (items @ [menuItem]))"

text \<open>
  The \<^verbatim>\<open>try\<close> block of \<^verbatim>\<open>parseOCRResults\<close>: the contents of \<^verbatim>\<open>items\<close> when the block is
  left, and the exception its \<^verbatim>\<open>catch\<close> clause logged, if any.
\<close>

definition extract_items :: "runtime \<Rightarrow> jsval \<Rightarrow> string \<Rightarrow> menu_item list \<times> exn option" where
  "extract_items rt ocrData menuType =
     (case get_prop ocrData ''text'' of
        Inl e \<Rightarrow> ([], Some e)
      | Inr t \<Rightarrow>
          (case get_prop ocrData ''extracted_text'' of
             Inl e \<Rightarrow> ([], Some e)
           | Inr t2 \<Rightarrow>
          (case get_prop ocrData ''structured_data'' of
             Inl e \<Rightarrow> ([], Some e)
           | Inr sd \<Rightarrow>
          (case get_prop ocrData ''items'' of
             Inl e \<Rightarrow> ([], Some e)
           | Inr its \<Rightarrow>
               (let extractedText = js_or t (js_or t2 (Str []));
                    structuredData = js_or sd (js_or its (Arr []))
                in case structuredData of
                     Arr (r # rs) \<Rightarrow> structured_loop rt menuType 0 (r # rs) []
                   | _ \<Rightarrow>
                       (case parseTextMenu rt extractedText menuType of
                          Inl e \<Rightarrow> ([], Some e)
                        | Inr parsedItems \<Rightarrow> (parsedItems, None)))))))"

text \<open>The callback of the final filter: \<^verbatim>\<open>item.name && item.name.length > 2\<close>.\<close>

definition keep_item :: "runtime \<Rightarrow> menu_item \<Rightarrow> exn + bool" where
  "keep_item rt item =
     (if truthy (name item)
      then bind_exn (get_prop (name item) ''length'') (js_gt2 rt)
      else Inr False)"

text \<open>\<^verbatim>\<open>items.filter(...)\<close> with a callback that may throw.\<close>

fun filter_items :: "runtime \<Rightarrow> menu_item list \<Rightarrow> exn + menu_item list" where
  "filter_items rt [] = Inr []"
| "filter_items rt (item # rest) =
     bind_exn (keep_item rt item) (\<lambda>k.
     bind_exn (filter_items rt rest) (\<lambda>kept.
       Inr (if k then item # kept else kept)))"

text \<open>
  \<^verbatim>\<open>parseOCRResults(ocrData, menuType)\<close>: the filter runs after the \<^verbatim>\<open>try\<close> statement, on
  whatever \<^verbatim>\<open>items\<close> holds.
\<close>

definition parseOCRResults :: "runtime \<Rightarrow> jsval \<Rightarrow> string \<Rightarrow> exn + menu_item list" where
  "parseOCRResults rt ocrData menuType = filter_items rt (fst (extract_items rt ocrData menuType))"

section \<open>DatabaseService: bulk upsert and audit log\<close>

text \<open>
  The row written to \<^verbatim>\<open>menu_updates\<close>: the argument of \<^verbatim>\<open>logMenuUpdate\<close> (with
  \<^verbatim>\<open>changes = { items_count, items }\<close>) and the time stamp added on insertion.
\<close>

record menu_update =
  user_id :: string
  menu_type :: string
  operation :: string
  items_count :: nat
  items_ids :: "string list"
  logged_at :: string

datatype alert =
    OcrFailedAlert string string nat
  | OcrErrorAlert string string exn

text \<open>Calls that leave the process, and log lines, in the order they happen.\<close>

datatype event =
    LogInfo string
  | LogWarn string
  | LogError string
  | SharpCall string
  | OcrCall string
  | AlertCall alert
  | UpsertCall "menu_item list"
  | AuditInsert menu_update
  | DeployCall string

text \<open>
  The response of the recognition service: \<^verbatim>\<open>ok\<close>, \<^verbatim>\<open>status\<close>, and what \<^verbatim>\<open>text()\<close> and
  \<^verbatim>\<open>json()\<close> give (either may reject).
\<close>

record ocr_response =
  ok :: bool
  status :: nat
  body_text :: "exn + string"
  body_json :: "exn + jsval"

text \<open>
  The collaborators whose code is outside the repository, as parameters. An \<open>Inl\<close> reply
  is a rejected promise. The storage client resolves to \<^verbatim>\<open>{ data, error }\<close>, each of
  which may be \<^verbatim>\<open>null\<close> (\<open>None\<close>).
\<close>

record world =
  runtime_of :: runtime
  start_time :: nat
  end_time :: nat
  audit_time :: nat
  sharp_reply :: "string \<Rightarrow> exn + string"
  ocr_reply :: "string \<Rightarrow> exn + ocr_response"
  alert_reply :: "alert \<Rightarrow> exn option"
  upsert_reply :: "menu_item list \<Rightarrow> exn + (menu_item list option \<times> exn option)"
  insert_reply :: "menu_update \<Rightarrow> exn + exn option"
  deploy_url :: "string option"
  deploy_reply :: "string \<Rightarrow> exn option"

text \<open>
  \<^verbatim>\<open>logMenuUpdate(update)\<close>: the insertion is attempted; a rejected promise or a reported
  error is logged and not thrown.
\<close>

definition logMenuUpdate ::
  "world \<Rightarrow> string \<Rightarrow> string \<Rightarrow> string \<Rightarrow> nat \<Rightarrow> string list \<Rightarrow> event list \<Rightarrow> event list" where
  "logMenuUpdate w uid mtype opn cnt ids tr =
     (let row = \<lparr> user_id = uid, menu_type = mtype, operation = opn, items_count = cnt,
                   items_ids = ids,
                   logged_at = toISOString (runtime_of w) (audit_time w) \<rparr>;
          tr = tr @ [AuditInsert row]
      in case insert_reply w row of
           Inr None \<Rightarrow> tr
         | _ \<Rightarrow> tr @ [LogError ''Database error logging menu update:''])"

text \<open>\<^verbatim>\<open>bulkUpsertMenuItems(items, userId, menuType)\<close>: the value returned or thrown, and the trace.\<close>

definition bulkUpsertMenuItems ::
  "world \<Rightarrow> menu_item list \<Rightarrow> string \<Rightarrow> string \<Rightarrow> event list
     \<Rightarrow> (exn + menu_item list option) \<times> event list" where
  "bulkUpsertMenuItems w items userId menuType tr =
     (let tr = tr @ [UpsertCall items]
      in case upsert_reply w items of
           Inl e \<Rightarrow> (Inl e, tr @ [LogError ''Database error bulk upserting menu items:''])
         | Inr (data, Some error) \<Rightarrow>
             (Inl error, tr @ [LogError ''Database error bulk upserting menu items:''])
         | Inr (data, None) \<Rightarrow>
             (Inr data,
              logMenuUpdate w userId menuType ''bulk_update'' (length items)
                (map item_id items) tr))"

section \<open>The handler of POST /process\<close>

record upload =
  originalname :: string
  file_size :: nat
  buffer :: string

record auth_user =
  uid :: string
  uname :: string

text \<open>
  What the handler reads of the request: \<^verbatim>\<open>req.file\<close>, \<^verbatim>\<open>req.body.menuType\<close> (a form
  field: a string, or missing) and \<^verbatim>\<open>req.user\<close>, which the authentication middleware
  has set. A field sent as \<^verbatim>\<open>menuType[]\<close> or \<^verbatim>\<open>menuType[a]\<close> reaches the handler as an
  array or an object; such requests are outside this model.
\<close>

record request =
  req_file :: "upload option"
  body_menuType :: "string option"
  user :: auth_user

record item_summary =
  s_id :: string
  s_name :: jsval
  s_price :: "jsnum option"
  s_category :: string

datatype response =
    SoftFailure string jsval "string list"
  | Success string nat nat int "item_summary list" string

text \<open>
  \<^verbatim>\<open>MENU_TYPE_MAPPING\<close> is an object literal, so \<^verbatim>\<open>MENU_TYPE_MAPPING[menuType]\<close> finds its
  four own properties and, for any other key, what it inherits from
  \<^verbatim>\<open>Object.prototype\<close>: functions, and for \<^verbatim>\<open>__proto__\<close> the prototype object, all truthy.
\<close>

definition MENU_TYPE_MAPPING :: "(string \<times> string) list" where
  "MENU_TYPE_MAPPING =
     [(''wine_list'', ''wine_list''),
      (''featured_menu'', ''featured_menu''),
      (''signature_cocktails'', ''signature_cocktails''),
      (''tavern_menu'', ''tavern_menu'')]"

definition object_prototype_keys :: "string list" where
  "object_prototype_keys =
     [''constructor'', ''__defineGetter__'', ''__defineSetter__'', ''hasOwnProperty'',
      ''__lookupGetter__'', ''__lookupSetter__'', ''isPrototypeOf'',
      ''propertyIsEnumerable'', ''toString'', ''valueOf'', ''__proto__'',
      ''toLocaleString'']"

definition mapping_truthy :: "string \<Rightarrow> bool" where
  "mapping_truthy k =
     (case map_of MENU_TYPE_MAPPING k of
        Some v \<Rightarrow> v \<noteq> []
      | None \<Rightarrow> k \<in> set object_prototype_keys)"

definition suggestions :: "string list" where
  "suggestions =
     [''Ensure the image is clear and well-lit'',
      ''Make sure text is not obscured or rotated'',
      ''Try a higher resolution image'']"

definition summarize :: "menu_item \<Rightarrow> item_summary" where
  "summarize item =
     \<lparr> s_id = item_id item, s_name = name item, s_price = price item,
       s_category = category item \<rparr>"

text \<open>
  The deployment hook: called when \<^verbatim>\<open>DEPLOY_WEBHOOK_URL\<close> is set and not empty; its
  failure is logged only.
\<close>

definition deploy_hook :: "world \<Rightarrow> event list \<Rightarrow> event list" where
  "deploy_hook w tr =
     (case deploy_url w of
        None \<Rightarrow> tr
      | Some url \<Rightarrow>
          if url = [] then tr
          else (case deploy_reply w url of
                  None \<Rightarrow> tr @ [DeployCall url]
                | Some e \<Rightarrow>
                    tr @ [DeployCall url, LogWarn ''Deploy webhook failed (non-critical):'']))"

text \<open>The part of the \<^verbatim>\<open>try\<close> block after \<^verbatim>\<open>ocrResponse.json()\<close>.\<close>

definition after_ocr ::
  "world \<Rightarrow> auth_user \<Rightarrow> string \<Rightarrow> jsval \<Rightarrow> event list \<Rightarrow> (exn + response) \<times> event list" where
  "after_ocr w u menuType ocrData tr =
     (let tr = (case snd (extract_items (runtime_of w) ocrData menuType) of
                  None \<Rightarrow> tr
                | Some e \<Rightarrow> tr @ [LogError ''Error parsing OCR results:''])
      in case parseOCRResults (runtime_of w) ocrData menuType of
           Inl e \<Rightarrow> (Inl e, tr)
         | Inr parsedItems \<Rightarrow>
             if length parsedItems = 0
             then (let tr = tr @ [LogWarn ''No menu items extracted from OCR'']
                   in case get_prop ocrData ''text'' of
                        Inl e \<Rightarrow> (Inl e, tr)
                      | Inr t \<Rightarrow>
                          (Inr (SoftFailure ''No menu items could be extracted from the image''
                                  (js_or t (Str [])) suggestions), tr))
             else (case bulkUpsertMenuItems w parsedItems (uid u) menuType tr of
                     (Inl e, tr) \<Rightarrow> (Inl e, tr)
                   | (Inr None, tr) \<Rightarrow> (Inl TypeError, tr)
                   | (Inr (Some savedItems), tr) \<Rightarrow>
                       (let tr = tr @ [LogInfo ''OCR processing completed successfully''];
                            tr = deploy_hook w tr
                        in (Inr (Success menuType (length parsedItems) (length savedItems)
                                   (int (end_time w) - int (start_time w))
                                   (map summarize savedItems)
                                   (''Successfully processed '' @ dec (length savedItems)
                                      @ '' menu items'')), tr))))"

text \<open>
  The \<^verbatim>\<open>try\<close> block of the handler. The image sent to the recognition service is the
  optimized one (its base64 encoding is not modelled).
\<close>

definition try_block ::
  "world \<Rightarrow> upload \<Rightarrow> auth_user \<Rightarrow> string \<Rightarrow> event list \<Rightarrow> (exn + response) \<times> event list" where
  "try_block w f u menuType tr =
     (let tr = tr @ [SharpCall (buffer f)]
      in case sharp_reply w (buffer f) of
           Inl e \<Rightarrow> (Inl e, tr)
         | Inr optimizedImage \<Rightarrow>
             (let tr = tr @ [OcrCall optimizedImage]
              in case ocr_reply w optimizedImage of
                   Inl e \<Rightarrow> (Inl e, tr)
                 | Inr ocrResponse \<Rightarrow>
                     if \<not> ok ocrResponse
                     then (case body_text ocrResponse of
                             Inl e \<Rightarrow> (Inl e, tr)
                           | Inr errorText \<Rightarrow>
                               (let a = OcrFailedAlert menuType (uname u) (status ocrResponse);
                                    tr = tr @ [LogError ''FluxImagen OCR failed'', AlertCall a]
                                in case alert_reply w a of
                                     Some e \<Rightarrow> (Inl e, tr)
                                   | None \<Rightarrow> (Inl (AppError ''OCR processing failed'' 500), tr)))
                     else (case body_json ocrResponse of
                             Inl e \<Rightarrow> (Inl e, tr)
                           | Inr ocrData \<Rightarrow> after_ocr w u menuType ocrData tr)))"

text \<open>
  The handler: the two checks before the \<^verbatim>\<open>try\<close> statement, the \<^verbatim>\<open>try\<close> block, and the
  \<^verbatim>\<open>catch\<close> clause, which logs, alerts and throws the error again.
\<close>

definition process_handler :: "world \<Rightarrow> request \<Rightarrow> (exn + response) \<times> event list" where
  "process_handler w req =
     (case req_file req of
        None \<Rightarrow> (Inl (AppError ''No image file provided'' 400), [])
      | Some f \<Rightarrow>
          (case body_menuType req of
             None \<Rightarrow> (Inl (AppError ''Invalid or missing menu type'' 400), [])
           | Some menuType \<Rightarrow>
               if menuType = [] \<or> \<not> mapping_truthy menuType
               then (Inl (AppError ''Invalid or missing menu type'' 400), [])
               else (case try_block w f (user req) menuType [LogInfo ''OCR processing started''] of
                       (Inr r, tr) \<Rightarrow> (Inr r, tr)
                     | (Inl error, tr) \<Rightarrow>
                         (let a = OcrErrorAlert menuType (uname (user req)) error;
                              tr = tr @ [LogError ''OCR processing error'', AlertCall a]
                          in case alert_reply w a of
                               Some e \<Rightarrow> (Inl e, tr)
                             | None \<Rightarrow> (Inl error, tr)))))"

section \<open>Reference definitions and sample instances\<close>

text \<open>
  A sample instance of the library parameters, for closed examples: integers print in
  decimal, digit strings convert as \<^verbatim>\<open>parseFloat\<close> reads them, the clock advances with the
  element processed, and a time stamp prints as its millisecond count. The general
  theorems hold for every instance.
\<close>

definition sample_runtime :: runtime where
  "sample_runtime =
     \<lparr> numToString = (\<lambda>n. case n of Fin q \<Rightarrow> dec (nat \<lfloor>q\<rfloor>) | NaN \<Rightarrow> ''NaN''
                               | PosInf \<Rightarrow> ''Infinity'' | NegInf \<Rightarrow> ''-Infinity''),
       stringToNumber = parseFloat,
       clock = (\<lambda>i k. 1700000000000 + i),
       toISOString = dec \<rparr>"

definition has_tag :: "exn + string list \<Rightarrow> string \<Rightarrow> bool" where
  "has_tag r t = (case r of Inl e \<Rightarrow> False | Inr ts \<Rightarrow> t \<in> set ts)"

definition names_of :: "exn + menu_item list \<Rightarrow> jsval list" where
  "names_of r = (case r of Inl e \<Rightarrow> [] | Inr items \<Rightarrow> map name items)"

definition ids_of :: "exn + menu_item list \<Rightarrow> string list" where
  "ids_of r = (case r of Inl e \<Rightarrow> [] | Inr items \<Rightarrow> map item_id items)"

text \<open>
  The reference definition of PriceNormalizer, following the wording of the
  specification: a finite number is returned unchanged and any other number is absent;
  a string is stripped of every character that is not a digit or a period and parsed,
  absent when the result is not a number; every other input is absent.
\<close>

definition is_finite :: "jsnum \<Rightarrow> bool" where
  "is_finite n = (case n of Fin q \<Rightarrow> True | _ \<Rightarrow> False)"

fun PriceNormalizer_spec :: "jsval \<Rightarrow> jsnum option" where
  "PriceNormalizer_spec (Num n) = (if is_finite n then Some n else None)"
| "PriceNormalizer_spec (Str s) =
     (let parsed = parseFloat (filter (\<lambda>c. is_digit c \<or> c = CHR ''.'') s)
      in if parsed = NaN then None else Some parsed)"
| "PriceNormalizer_spec v = None"

text \<open>The inputs PriceNormalizer is specified on: a number, a string, or an absent or false value.\<close>

fun price_input :: "jsval \<Rightarrow> bool" where
  "price_input (Num n) = True"
| "price_input (Str s) = True"
| "price_input Undefined = True"
| "price_input Null = True"
| "price_input (Bool b) = (\<not> b)"
| "price_input v = False"

fun non_finite_number :: "jsval \<Rightarrow> bool" where
  "non_finite_number (Num n) = (\<not> is_finite n)"
| "non_finite_number v = False"

text \<open>The two-line menu text of the specification's example.\<close>

definition old_fashioned :: string where
  "old_fashioned =
     ''Old Fashioned $14.00'' @ [CHR 0x0A] @ ''House bourbon, bitters, and orange peel''"

text \<open>
  A line of the fallback text that starts an item which is later flushed: it matches the
  price pattern, its trimmed length exceeds 5, and the name left after removing the
  price is not empty.
\<close>

definition starts_item :: "string \<Rightarrow> bool" where
  "starts_item line =
     (price_match (trim line) \<noteq> None \<and> 5 < length (trim line)
      \<and> trim (strip_price (trim line)) \<noteq> [])"

definition fallback_fields :: "menu_item \<Rightarrow> string \<times> string \<times> bool \<times> string list" where
  "fallback_fields item = (item_id item, category item, available item, tags item)"

definition expected_fields ::
  "runtime \<Rightarrow> string \<Rightarrow> nat \<times> string \<Rightarrow> string \<times> string \<times> bool \<times> string list" where
  "expected_fields rt menuType p =
     (menuType @ ''_manual_'' @ dec (clock rt (fst p) 0) @ ''_'' @ dec (fst p),
      menuType, True, [])"

text \<open>A menu text whose first line is a heading, not an item.\<close>

definition headed_menu :: string where
  "headed_menu = ''Tavern Menu'' @ [CHR 0x0A] @ ''Old Fashioned $14.00''"

text \<open>A property of a record, \<^verbatim>\<open>undefined\<close> where reading it would throw.\<close>

definition field :: "jsval \<Rightarrow> string \<Rightarrow> jsval" where
  "field item k = (case get_prop item k of Inl e \<Rightarrow> Undefined | Inr v \<Rightarrow> v)"

definition lacks_name :: "jsval \<Rightarrow> bool" where
  "lacks_name item = (\<not> truthy (field item ''name'') \<and> \<not> truthy (field item ''title''))"

definition is_audit :: "event \<Rightarrow> bool" where
  "is_audit e = (case e of AuditInsert row \<Rightarrow> True | _ \<Rightarrow> False)"

definition is_upsert :: "event \<Rightarrow> bool" where
  "is_upsert e = (case e of UpsertCall items \<Rightarrow> True | _ \<Rightarrow> False)"

definition is_ocr_call :: "event \<Rightarrow> bool" where
  "is_ocr_call e = (case e of OcrCall img \<Rightarrow> True | _ \<Rightarrow> False)"

text \<open>
  A sample world: every collaborator succeeds, the recognition service answers 200 with
  the given payload, and the storage reports the batch it was given.
\<close>

definition sample_world :: "jsval \<Rightarrow> world" where
  "sample_world payload =
     \<lparr> runtime_of = sample_runtime,
       start_time = 1700000000000,
       end_time = 1700000000900,
       audit_time = 1700000000800,
       sharp_reply = (\<lambda>b. Inr b),
       ocr_reply = (\<lambda>b. Inr \<lparr> ok = True, status = 200, body_text = Inr [],
                               body_json = Inr payload \<rparr>),
       alert_reply = (\<lambda>a. None),
       upsert_reply = (\<lambda>items. Inr (Some items, None)),
       insert_reply = (\<lambda>row. Inr None),
       deploy_url = None,
       deploy_reply = (\<lambda>url. None) \<rparr>"

definition sample_request :: "string \<Rightarrow> request" where
  "sample_request menuType =
     \<lparr> req_file = Some \<lparr> originalname = ''menu.jpg'', file_size = 2048, buffer = ''jpeg'' \<rparr>,
       body_menuType = Some menuType,
       user = \<lparr> uid = ''u1'', uname = ''Boss'' \<rparr> \<rparr>"

text \<open>
  A payload with one structured record whose name is an object; the \<^verbatim>\<open>length\<close> of that
  object is an object with an own property \<^verbatim>\<open>toString\<close>:
  \<^verbatim>\<open>{"items":[{"name":{"length":{"toString":1}}}]}\<close>.
\<close>

definition odd_name_payload :: jsval where
  "odd_name_payload =
     Obj [(''items'',
           Arr [Obj [(''name'', Obj [(''length'', Obj [(''toString'', Num (Fin 1))])])]])]"

text \<open>
  Structured payloads for the examples: one record named \<^verbatim>\<open>"ab "\<close> (two letters and a
  space), and two records named \<^verbatim>\<open>"ab"\<close> and \<^verbatim>\<open>"Merlot"\<close>.
\<close>

definition padded_name_payload :: jsval where
  "padded_name_payload = Obj [(''items'', Arr [Obj [(''name'', Str ''ab '')]])]"

definition two_record_payload :: jsval where
  "two_record_payload =
     Obj [(''items'', Arr [Obj [(''name'', Str ''ab'')], Obj [(''name'', Str ''Merlot'')]])]"

text \<open>A draft whose name is a string equal to its own trimming.\<close>

definition trimmed_name :: "menu_item \<Rightarrow> bool" where
  "trimmed_name d = (\<exists>s. name d = Str s \<and> trim s = s)"

text \<open>A draft that the structured extractor built from some record at some position.\<close>

definition built :: "runtime \<Rightarrow> string \<Rightarrow> menu_item \<Rightarrow> bool" where
  "built rt menuType d = (\<exists>i item. build_item rt menuType i item = Inr d)"

text \<open>Two structured records: one without a name or a title, one named \<^verbatim>\<open>"ab"\<close>.\<close>

definition nameless_records :: "jsval list" where
  "nameless_records = [Obj [], Obj [(''name'', Str ''ab'')]]"

definition sample_item :: menu_item where
  "sample_item =
     \<lparr> item_id = ''wine_list_ocr_1700000000000_0'',
       name = Str ''Merlot'',
       description = Null,
       price = Some (Fin 12),
       category = ''wine_list'',
       subcategory = Null,
       available = True,
       tags = [],
       created_at = ''1700000000000'',
       updated_at = ''1700000000000'' \<rparr>"

text \<open>
  \<^verbatim>\<open>ocrData.structured_data || ocrData.items || []\<close>, as \<open>extract_items\<close> computes it.
\<close>

definition structured_data_of :: "jsval \<Rightarrow> jsval" where
  "structured_data_of ocrData =
     js_or (field ocrData ''structured_data'') (js_or (field ocrData ''items'') (Arr []))"

text \<open>
  More structured payloads: the two records above; one record whose name is the number
  1837; and one record without a name whose description is an object with an own
  property \<^verbatim>\<open>toString\<close>.
\<close>

definition nameless_payload :: jsval where
  "nameless_payload = Obj [(''items'', Arr nameless_records)]"

definition numeric_name_payload :: jsval where
  "numeric_name_payload = Obj [(''items'', Arr [Obj [(''name'', Num (Fin 1837))]])]"

definition unbuildable_record :: jsval where
  "unbuildable_record = Obj [(''description'', Obj [(''toString'', Num (Fin 1))])]"

definition unbuildable_payload :: jsval where
  "unbuildable_payload = Obj [(''items'', Arr [unbuildable_record])]"

section \<open>Properties\<close>

subsection \<open>PriceNormalizer\<close>

lemma parsePrice_number: "parsePrice rt (Num n) = Inr (Some n)"
  by (simp add: parsePrice_def)

lemma parsePrice_string:
  "parsePrice rt (Str s) = Inr (PriceNormalizer_spec (Str s))"
proof (cases "s = []")
  case True
  then show ?thesis
    by (simp add: parsePrice_def parseFloat_def)
next
  case False
  then show ?thesis
    by (simp add: parsePrice_def bind_exn_def Let_def)
qed

lemma parsePrice_on_spec_inputs:
  assumes "price_input v" and "\<not> non_finite_number v"
  shows "parsePrice rt v = Inr (PriceNormalizer_spec v)"
proof (cases v)
  case (Num n)
  with assms show ?thesis
    by (simp add: parsePrice_number)
next
  case (Str s)
  then show ?thesis
    by (simp add: parsePrice_string)
next
  case (Bool b)
  with assms show ?thesis
    by (simp add: parsePrice_def)
qed (use assms in \<open>simp_all add: parsePrice_def\<close>)

lemmas price_eval =
  parsePrice_def bind_exn_def parseFloat_def is_digit_def digits_val_def digit_val_def

text \<open>
  C5, as the code has it. On every input the specification names (a number, a string,
  an absent or false value) except the non-finite numbers, \<open>parsePrice\<close> returns what the
  reference definition returns. Every number, finite or not, is returned unchanged. The
  four examples: \<^verbatim>\<open>"$14.00"\<close> gives 14, the empty string gives \<^verbatim>\<open>null\<close>, 12 gives 12 and
  \<^verbatim>\<open>"N/A"\<close> gives \<^verbatim>\<open>null\<close>.
\<close>

theorem C5_parsePrice_refines_reference:
  "(price_input v \<and> \<not> non_finite_number v \<longrightarrow> parsePrice rt v = Inr (PriceNormalizer_spec v))
   \<and> parsePrice rt (Num n) = Inr (Some n)
   \<and> parsePrice rt (Str ''$14.00'') = Inr (Some (Fin 14))
   \<and> parsePrice rt (Str []) = Inr None
   \<and> parsePrice rt (Num (Fin 12)) = Inr (Some (Fin 12))
   \<and> parsePrice rt (Str ''N/A'') = Inr None"
proof -
  have "parsePrice rt (Str ''$14.00'') = Inr (Some (Fin 14))"
    by (simp add: price_eval)
  moreover have "parsePrice rt (Str []) = Inr None"
    by (simp add: price_eval)
  moreover have "parsePrice rt (Str ''N/A'') = Inr None"
    by (simp add: price_eval)
  ultimately show ?thesis
    using parsePrice_on_spec_inputs [of v rt] parsePrice_number by blast
qed

theorem C5_parsePrice_refines_reference_witness:
  "price_input (Str ''$14.99 each'') \<and> \<not> non_finite_number (Str ''$14.99 each'')
   \<and> parsePrice sample_runtime (Str ''$14.99 each'') = Inr (PriceNormalizer_spec (Str ''$14.99 each''))
   \<and> PriceNormalizer_spec (Str ''$14.99 each'') = Some (Fin (1499 / 100))"
proof -
  have a: "price_input (Str ''$14.99 each'') \<and> \<not> non_finite_number (Str ''$14.99 each'')"
    by simp
  have b: "PriceNormalizer_spec (Str ''$14.99 each'') = Some (Fin (1499 / 100))"
    by (simp add: parseFloat_def is_digit_def digits_val_def digit_val_def)
  from a b show ?thesis
    using C5_parsePrice_refines_reference [of "Str ''$14.99 each''" sample_runtime]
    by blast
qed

text \<open>
  C5, as the claim states it, fails on a non-finite number: the reference definition
  makes \<^verbatim>\<open>Infinity\<close> absent, and \<open>parsePrice\<close> returns it. (\<^verbatim>\<open>JSON.parse\<close> reads
  \<^verbatim>\<open>1e999\<close> as \<^verbatim>\<open>Infinity\<close>.)
\<close>

theorem C5_non_finite_counterexample:
  "parsePrice sample_runtime (Num PosInf) = Inr (Some PosInf)
   \<and> PriceNormalizer_spec (Num PosInf) = None"
  by (simp add: parsePrice_def is_finite_def)

subsection \<open>TextLineExtractor on the example text\<close>

lemmas text_eval =
  parseTextMenu_def menu_lines_def trim_def is_space_def price_at_def cents_def
  is_digit_def is_line_terminator_def new_text_item_def flush_def append_description_def
  parseFloat_def digits_val_def digit_val_def

text \<open>
  C6. On the text \<^verbatim>\<open>"Old Fashioned $14.00\nHouse bourbon, bitters, and orange peel"\<close>,
  \<open>parseTextMenu\<close> returns exactly one item, named \<^verbatim>\<open>Old Fashioned\<close>, priced 14, described
  by the second line.
\<close>

theorem C6_old_fashioned_one_item:
  "parseTextMenu rt (Str old_fashioned) menuType =
     Inr [\<lparr> item_id = menuType @ ''_manual_'' @ dec (clock rt 0 0) @ ''_'' @ dec 0,
            name = Str ''Old Fashioned'',
            description = Str ''House bourbon, bitters, and orange peel'',
            price = Some (Fin 14),
            category = menuType,
            subcategory = Undefined,
            available = True,
            tags = [],
            created_at = toISOString rt (clock rt 0 1),
            updated_at = toISOString rt (clock rt 0 2) \<rparr>]"
  by (simp add: old_fashioned_def text_eval)

subsection \<open>TagClassifier on the example texts\<close>

lemma tags_estate:
  "determineTags rt (Obj [(''name'', Str ''Estate Reserve Cabernet'')]) ''wine_list''
     = Inr [''reserve'']"
  by code_simp

lemma tags_text_estate:
  "tags_of_text (toLowerCase ''Estate Reserve Cabernet'') ''wine_list'' = [''reserve'']"
  by code_simp

lemma tags_fizz:
  "determineTags rt (Obj [(''name'', Str ''simple gin fizz'')]) ''signature_cocktails''
     = Inr [''signature'']"
  by code_simp

lemma tags_text_fizz:
  "tags_of_text (toLowerCase ''simple gin fizz'') ''signature_cocktails'' = [''signature'']"
  by code_simp

text \<open>
  C7, as the code has it. The text \<^verbatim>\<open>Estate Reserve Cabernet\<close> contains \<^verbatim>\<open>reserve\<close> and
  does not contain \<^verbatim>\<open>red\<close>: for the wine list the tags are exactly \<^verbatim>\<open>reserve\<close>. For
  signature cocktails, \<^verbatim>\<open>simple gin fizz\<close> is tagged \<^verbatim>\<open>signature\<close> and not \<^verbatim>\<open>premium\<close>. The
  text is given as the name of a record without a description, and also directly to the
  rule table.
\<close>

theorem C7_tag_examples:
  "determineTags rt (Obj [(''name'', Str ''Estate Reserve Cabernet'')]) ''wine_list''
     = Inr [''reserve'']
   \<and> tags_of_text (toLowerCase ''Estate Reserve Cabernet'') ''wine_list'' = [''reserve'']
   \<and> determineTags rt (Obj [(''name'', Str ''simple gin fizz'')]) ''signature_cocktails''
     = Inr [''signature'']
   \<and> tags_of_text (toLowerCase ''simple gin fizz'') ''signature_cocktails'' = [''signature'']"
  by (simp only: tags_estate tags_text_estate tags_fizz tags_text_fizz simp_thms)

text \<open>
  C7, as the claim states it, fails: the tag \<^verbatim>\<open>red\<close> is not among the tags of
  \<^verbatim>\<open>Estate Reserve Cabernet\<close> on the wine list.
\<close>

theorem C7_red_counterexample:
  "\<not> has_tag (determineTags sample_runtime (Obj [(''name'', Str ''Estate Reserve Cabernet'')])
               ''wine_list'') ''red''
   \<and> ''red'' \<notin> set (tags_of_text (toLowerCase ''Estate Reserve Cabernet'') ''wine_list'')"
  by (simp add: has_tag_def tags_estate tags_text_estate)

subsection \<open>Identifiers and fixed fields in the fallback path\<close>

lemma fields_new_text_item:
  "fallback_fields (new_text_item rt menuType i t g) = expected_fields rt menuType (i, l)"
  by (simp add: fallback_fields_def new_text_item_def expected_fields_def)

lemma fields_append_description:
  "fallback_fields (append_description cur t) = fallback_fields cur"
  by (simp add: fallback_fields_def append_description_def)

lemma flush_append_description:
  "map fallback_fields (flush items (Some (append_description cur t)))
     = map fallback_fields (flush items (Some cur))"
  by (simp add: flush_def fields_append_description) (simp add: append_description_def)

lemma flush_flush_new:
  "flush (flush items cur) (Some (new_text_item rt menuType i t g))
     = flush items cur @ (if trim (strip_price t) \<noteq> [] then [new_text_item rt menuType i t g] else [])"
  by (simp add: flush_def new_text_item_def)

lemma text_loop_fields:
  "text_loop rt menuType k ls items cur = (items', cur') \<Longrightarrow>
     map fallback_fields (flush items' cur')
       = map fallback_fields (flush items cur)
         @ map (expected_fields rt menuType) (filter (\<lambda>p. starts_item (snd p)) (enumerate k ls))"
proof (induction ls arbitrary: k items cur)
  case Nil
  then show ?case by simp
next
  case (Cons l ls)
  show ?case
  proof (cases "price_match (trim l)")
    case None
    note nomatch = this
    then have no: "\<not> starts_item l"
      by (simp add: starts_item_def)
    show ?thesis
    proof (cases cur)
      case None
      with nomatch Cons.prems have "text_loop rt menuType (k + 1) ls items cur = (items', cur')"
        by simp
      from Cons.IH [OF this] no show ?thesis by simp
    next
      case (Some c)
      show ?thesis
      proof (cases "10 < length (trim l)")
        case True
        with nomatch Some Cons.prems
        have "text_loop rt menuType (k + 1) ls items (Some (append_description c (trim l)))
                = (items', cur')"
          by simp
        from Cons.IH [OF this] no Some show ?thesis
          by (simp add: flush_append_description)
      next
        case False
        with nomatch Some Cons.prems
        have "text_loop rt menuType (k + 1) ls items cur = (items', cur')"
          by simp
        from Cons.IH [OF this] no show ?thesis by simp
      qed
    qed
  next
    case (Some g)
    note matched = this
    show ?thesis
    proof (cases "5 < length (trim l)")
      case True
      with matched Cons.prems
      have "text_loop rt menuType (k + 1) ls (flush items cur)
              (Some (new_text_item rt menuType k (trim l) g)) = (items', cur')"
        by simp
      from Cons.IH [OF this] matched True show ?thesis
        by (simp add: flush_flush_new starts_item_def fields_new_text_item [of _ _ _ _ _ l])
    next
      case False
      then have no: "\<not> starts_item l"
        by (simp add: starts_item_def)
      from False matched Cons.prems
      have "text_loop rt menuType (k + 1) ls items cur = (items', cur')"
        by simp
      from Cons.IH [OF this] no show ?thesis by simp
    qed
  qed
qed

text \<open>
  C8, as the code has it. \<open>parseTextMenu\<close> returns normally on every string, and its
  items are, in order, those started by the lines that match the price pattern with a
  non-empty name: each has the target category, \<^verbatim>\<open>available = true\<close>, no tags, and the
  identifier \<^verbatim>\<open><category>_manual_<clock reading>_<index>\<close>, where the index is that
  of the item's price line among the non-blank lines of the text and the clock is read
  when the item is started.
\<close>

theorem C8_fallback_identifiers:
  "\<exists>out. parseTextMenu rt (Str s) menuType = Inr out
     \<and> map fallback_fields out
         = map (expected_fields rt menuType)
             (filter (\<lambda>p. starts_item (snd p)) (enumerate 0 (menu_lines s)))"
proof -
  obtain items cur where l: "text_loop rt menuType 0 (menu_lines s) [] None = (items, cur)"
    by (cases "text_loop rt menuType 0 (menu_lines s) [] None")
  from text_loop_fields [OF l] l show ?thesis
    by (simp add: parseTextMenu_def flush_def)
qed

lemma headed_menu_items:
  "ids_of (parseTextMenu rt (Str headed_menu) menuType)
     = [menuType @ ''_manual_'' @ dec (clock rt 1 0) @ ''_'' @ dec 1]"
  by (simp add: ids_of_def headed_menu_def text_eval)

lemma dec_1700000000001: "dec 1700000000001 = ''1700000000001''"
  by (simp add: dec.simps digit_char_def)

lemma dec_small: "dec 0 = ''0''" "dec 1 = ''1''" "dec (Suc 0) = ''1''" "dec 2 = ''2''"
  by (simp_all add: dec.simps digit_char_def)

text \<open>
  C8, as the claim states it, fails: when a heading precedes the first price line, the
  first flushed item carries the index 1 of its line, not its flush-order position 0.
\<close>

theorem C8_flush_position_counterexample:
  "ids_of (parseTextMenu sample_runtime (Str headed_menu) ''tavern_menu'')
     = [''tavern_menu_manual_1700000000001_1'']
   \<and> ''tavern_menu_manual_1700000000001_1''
       \<noteq> ''tavern_menu'' @ ''_manual_'' @ dec (clock sample_runtime 1 0) @ ''_'' @ dec 0"
  by (simp add: headed_menu_items sample_runtime_def dec_1700000000001 dec_small)

subsection \<open>The name filter of ResultParser\<close>

lemma bind_exn_Inr: "bind_exn m f = Inr y \<Longrightarrow> \<exists>x. m = Inr x \<and> f x = Inr y"
  by (cases m) (simp_all add: bind_exn_def)

lemma keep_item_string: "name d = Str s \<Longrightarrow> keep_item rt d = Inr (2 < length s)"
  by (cases "s = []") (simp_all add: keep_item_def bind_exn_def)

lemma keep_item_falsy: "\<not> truthy (name d) \<Longrightarrow> keep_item rt d = Inr False"
  by (simp add: keep_item_def)

lemma keep_item_true: "keep_item rt d = Inr True \<Longrightarrow> truthy (name d)"
  by (cases "truthy (name d)") (simp_all add: keep_item_def)

lemma filter_items_eq:
  "filter_items rt xs = Inr out \<Longrightarrow>
     out = filter (\<lambda>d. keep_item rt d = Inr True) xs
     \<and> (\<forall>d\<in>set xs. d \<notin> set out \<longrightarrow> keep_item rt d = Inr False)"
proof (induction xs arbitrary: out)
  case Nil
  then show ?case by simp
next
  case (Cons x xs)
  from Cons.prems
  have "bind_exn (keep_item rt x) (\<lambda>k. bind_exn (filter_items rt xs)
          (\<lambda>kept. Inr (if k then x # kept else kept))) = Inr out"
    by simp
  then obtain k where k: "keep_item rt x = Inr k"
    and "bind_exn (filter_items rt xs) (\<lambda>kept. Inr (if k then x # kept else kept)) = Inr out"
    by (blast dest: bind_exn_Inr)
  then obtain kept where r: "filter_items rt xs = Inr kept"
    and "Inr (if k then x # kept else kept) = (Inr out :: exn + menu_item list)"
    by (blast dest: bind_exn_Inr)
  then have "(if k then x # kept else kept) = out"
    by (simp only: sum.inject)
  then have o: "out = (if k then x # kept else kept)"
    by (rule sym)
  note ih = Cons.IH [OF r]
  from ih have ih1: "kept = filter (\<lambda>d. keep_item rt d = Inr True) xs"
    by (rule conjunct1)
  from ih have ih2: "\<forall>d\<in>set xs. d \<notin> set kept \<longrightarrow> keep_item rt d = Inr False"
    by (rule conjunct2)
  show ?case
  proof (cases k)
    case True
    with k o have "out = x # kept" and "keep_item rt x = Inr True"
      by simp_all
    with ih1 ih2 show ?thesis
      by simp
  next
    case False
    from False o have o2: "out = kept"
      by simp
    from False k have k2: "keep_item rt x = Inr False"
      by simp
    from o2 k2 ih1 have g1: "out = filter (\<lambda>d. keep_item rt d = Inr True) (x # xs)"
      by simp
    from o2 k2 ih2 have g2: "\<forall>d\<in>set (x # xs). d \<notin> set out \<longrightarrow> keep_item rt d = Inr False"
      by simp
    from g1 g2 show ?thesis
      by (rule conjI)
  qed
qed

lemma dropWhile_trimmed:
  assumes "v = dropWhile P (rev (dropWhile P s))"
  shows "dropWhile P (rev v) = rev v"
proof (cases "v = []")
  case True
  then show ?thesis by simp
next
  case False
  define t where "t = dropWhile P s"
  have "rev t = takeWhile P (rev t) @ v"
    using assms by (simp add: t_def)
  then have "rev (rev t) = rev (takeWhile P (rev t) @ v)"
    by simp
  then have t: "t = rev v @ rev (takeWhile P (rev t))"
    by simp
  from False have nv: "rev v \<noteq> []"
    by simp
  with t have "hd (rev v) = hd t"
    by (metis hd_append2)
  moreover from t nv have "t \<noteq> []"
    by auto
  then have "\<not> P (hd t)"
    unfolding t_def by (metis hd_dropWhile)
  ultimately show ?thesis
    using nv by (cases "rev v") auto
qed

lemma trim_idem: "trim (trim s) = trim s"
proof -
  define v where "v = dropWhile is_space (rev (dropWhile is_space s))"
  have "trim s = rev v"
    by (simp add: trim_def v_def)
  moreover have "dropWhile is_space (rev v) = rev v"
    using v_def by (rule dropWhile_trimmed)
  moreover have "dropWhile is_space v = v"
    by (simp add: v_def)
  ultimately show ?thesis
    by (simp add: trim_def)
qed

lemma trimmed_new_text_item: "trimmed_name (new_text_item rt menuType i t g)"
  by (simp add: trimmed_name_def new_text_item_def trim_idem)

lemma trimmed_append_description:
  "trimmed_name cur \<Longrightarrow> trimmed_name (append_description cur t)"
  by (simp add: trimmed_name_def append_description_def)

lemma trimmed_flush:
  "list_all trimmed_name items \<Longrightarrow> (\<forall>c. cur = Some c \<longrightarrow> trimmed_name c)
     \<Longrightarrow> list_all trimmed_name (flush items cur)"
  by (simp add: flush_def split: option.splits)

lemma text_loop_trimmed:
  "text_loop rt menuType k ls items cur = (items', cur') \<Longrightarrow>
   list_all trimmed_name items \<Longrightarrow> (\<forall>c. cur = Some c \<longrightarrow> trimmed_name c) \<Longrightarrow>
     list_all trimmed_name (flush items' cur')"
proof (induction ls arbitrary: k items cur)
  case Nil
  then show ?case
    by (simp add: trimmed_flush)
next
  case (Cons l ls)
  show ?case
  proof (cases "price_match (trim l)")
    case None
    show ?thesis
    proof (cases cur)
      case cn: None
      with None Cons.prems show ?thesis
        by (intro Cons.IH [of "k + 1" items cur]) simp_all
    next
      case (Some c)
      with None Cons.prems show ?thesis
        by (cases "10 < length (trim l)")
           (auto intro!: Cons.IH [of "k + 1" items] simp: trimmed_append_description)
    qed
  next
    case (Some g)
    with Cons.prems show ?thesis
      by (cases "5 < length (trim l)")
         (auto intro!: Cons.IH [of "k + 1"] simp: trimmed_new_text_item trimmed_flush)
  qed
qed

lemma parseTextMenu_trimmed:
  "parseTextMenu rt tx menuType = Inr ps \<Longrightarrow> list_all trimmed_name ps"
proof (cases tx)
  case (Str s)
  assume p: "parseTextMenu rt tx menuType = Inr ps"
  obtain items cur where l: "text_loop rt menuType 0 (menu_lines s) [] None = (items, cur)"
    by (cases "text_loop rt menuType 0 (menu_lines s) [] None")
  from text_loop_trimmed [OF l] have "list_all trimmed_name (flush items cur)"
    by simp
  with p l Str show ?thesis
    by (simp add: parseTextMenu_def)
qed (simp_all add: parseTextMenu_def)

lemma structured_loop_built:
  "structured_loop rt menuType k recs acc = (ds, e) \<Longrightarrow> list_all (built rt menuType) acc
     \<Longrightarrow> list_all (built rt menuType) ds"
proof (induction recs arbitrary: k acc)
  case Nil
  then show ?case by simp
next
  case (Cons r recs)
  show ?case
  proof (cases "build_item rt menuType k r")
    case (Inl e')
    with Cons.prems show ?thesis by simp
  next
    case (Inr d)
    then have "built rt menuType d"
      by (auto simp: built_def)
    with Inr Cons.prems show ?thesis
      by (intro Cons.IH [of "k + 1" "acc @ [d]"]) simp_all
  qed
qed

lemma extract_items_origin:
  "list_all (\<lambda>d. built rt menuType d \<or> trimmed_name d) (fst (extract_items rt ocrData menuType))"
proof -
  have s: "list_all (\<lambda>d. built rt menuType d \<or> trimmed_name d)
             (fst (structured_loop rt menuType 0 recs []))" for recs
    using structured_loop_built [of rt menuType 0 recs "[]"]
    by (cases "structured_loop rt menuType 0 recs []") (auto simp: list_all_iff)
  have t: "list_all (\<lambda>d. built rt menuType d \<or> trimmed_name d) ps"
    if "parseTextMenu rt tx menuType = Inr ps" for tx ps
    using parseTextMenu_trimmed [OF that] by (auto simp: list_all_iff)
  show ?thesis
    unfolding extract_items_def Let_def
    by (auto simp: s t simp del: structured_loop.simps
          split: sum.splits jsval.splits list.splits)
qed

text \<open>
  C1, as the code has it. Whenever \<open>parseOCRResults\<close> returns, its result is the list of
  extracted drafts, in extraction order, without those for which
  \<^verbatim>\<open>item.name && item.name.length > 2\<close> is false. Every draft it returns has a truthy
  name, and a name that is a string has more than two characters, counted as stored:
  the filter does not trim. A draft of the fallback extractor carries a trimmed name,
  so there the trimmed length exceeds two as well; a draft of the structured extractor
  carries the record's name as it came.
\<close>

theorem C1_filter_by_stored_name_length:
  assumes "parseOCRResults rt ocrData menuType = Inr out"
  shows "out = filter (\<lambda>d. keep_item rt d = Inr True) (fst (extract_items rt ocrData menuType))
    \<and> (\<forall>d\<in>set (fst (extract_items rt ocrData menuType)).
          d \<notin> set out \<longrightarrow> keep_item rt d = Inr False)
    \<and> (\<forall>d\<in>set out. truthy (name d) \<and> (\<forall>s. name d = Str s \<longrightarrow> 2 < length s)
          \<and> (built rt menuType d \<or> (\<exists>s. name d = Str s \<and> 2 < length (trim s))))
    \<and> (\<forall>d s. name d = Str s \<longrightarrow> keep_item rt d = Inr (2 < length s))
    \<and> (\<forall>d. \<not> truthy (name d) \<longrightarrow> keep_item rt d = Inr False)"
proof -
  let ?xs = "fst (extract_items rt ocrData menuType)"
  let ?kept = "\<lambda>d. keep_item rt d = Inr True"
  from assms have f: "filter_items rt ?xs = Inr out"
    by (simp only: parseOCRResults_def)
  from filter_items_eq [OF f] have e1: "out = filter ?kept ?xs"
    and e2: "\<forall>d\<in>set ?xs. d \<notin> set out \<longrightarrow> keep_item rt d = Inr False"
    by (rule conjunct1, rule conjunct2)
  have e3: "truthy (name d) \<and> (\<forall>s. name d = Str s \<longrightarrow> 2 < length s)
          \<and> (built rt menuType d \<or> (\<exists>s. name d = Str s \<and> 2 < length (trim s)))"
    if d: "d \<in> set out" for d
  proof -
    from d e1 have "d \<in> set (filter ?kept ?xs)"
      by (simp only:)
    then have k: "keep_item rt d = Inr True" and x: "d \<in> set ?xs"
      by (simp_all only: set_filter mem_Collect_eq)
    have len: "2 < length s" if n: "name d = Str s" for s
    proof -
      from keep_item_string [OF n, of rt] k have "Inr (2 < length s) = (Inr True :: exn + bool)"
        by (simp only:)
      then show ?thesis
        by (simp only: sum.inject simp_thms)
    qed
    from extract_items_origin [of rt menuType ocrData] x
    have "built rt menuType d \<or> trimmed_name d"
      by (simp only: list_all_iff)
    then have "built rt menuType d \<or> (\<exists>s. name d = Str s \<and> 2 < length (trim s))"
    proof
      assume "built rt menuType d"
      then show ?thesis ..
    next
      assume "trimmed_name d"
      then obtain s where s: "name d = Str s" and t: "trim s = s"
        unfolding trimmed_name_def by blast
      from len [OF s] t have "2 < length (trim s)"
        by (simp only:)
      with s show ?thesis
        by blast
    qed
    with keep_item_true [OF k] len show ?thesis
      by blast
  qed
  have e4: "\<forall>d s. name d = Str s \<longrightarrow> keep_item rt d = Inr (2 < length s)"
    using keep_item_string by blast
  have e5: "\<forall>d. \<not> truthy (name d) \<longrightarrow> keep_item rt d = Inr False"
    using keep_item_falsy by blast
  from e1 e2 e3 e4 e5 show ?thesis
    by blast
qed

lemmas structured_eval =
  parseOCRResults_def extract_items_def build_item_def determineTags_def parsePrice_def
  bind_exn_def js_or_def keep_item_def

lemma two_records_parsed:
  "\<exists>out. parseOCRResults rt two_record_payload menuType = Inr out
      \<and> map name out = [Str ''Merlot'']"
  by (simp add: two_record_payload_def structured_eval)

theorem C1_filter_by_stored_name_length_witness:
  "\<exists>out. parseOCRResults sample_runtime two_record_payload ''wine_list'' = Inr out
      \<and> map name out = [Str ''Merlot'']
      \<and> out = filter (\<lambda>d. keep_item sample_runtime d = Inr True)
                (fst (extract_items sample_runtime two_record_payload ''wine_list''))"
proof -
  from two_records_parsed [of sample_runtime "''wine_list''"]
  obtain out where p: "parseOCRResults sample_runtime two_record_payload ''wine_list'' = Inr out"
    and n: "map name out = [Str ''Merlot'']"
    by (elim exE conjE)
  from C1_filter_by_stored_name_length [OF p]
  have "out = filter (\<lambda>d. keep_item sample_runtime d = Inr True)
                (fst (extract_items sample_runtime two_record_payload ''wine_list''))"
    by (rule conjunct1)
  with p n show ?thesis
    by (intro exI [of _ out] conjI)
qed

lemma padded_name_kept:
  "names_of (parseOCRResults rt padded_name_payload menuType) = [Str ''ab '']"
  by (simp add: names_of_def padded_name_payload_def structured_eval)

lemma trim_ab: "trim ''ab '' = ''ab''"
  by (simp add: trim_def is_space_def)

text \<open>
  C1, as the claim states it, fails in the structured path: the record named
  \<^verbatim>\<open>"ab "\<close> is kept, and its trimmed name has length 2.
\<close>

theorem C1_trimmed_length_counterexample:
  "names_of (parseOCRResults sample_runtime padded_name_payload ''wine_list'') = [Str ''ab '']
   \<and> length (trim ''ab '') = 2"
  by (simp add: padded_name_kept trim_ab)

subsection \<open>Exceptions in ResultParser\<close>

text \<open>
  The filter is total when no draft name is an object: a string or an array has a
  numeric length, and anything else has none.
\<close>

lemma keep_item_total:
  assumes "\<forall>kvs. name d \<noteq> Obj kvs"
  shows "\<exists>b. keep_item rt d = Inr b"
proof (cases "name d")
  case (Obj kvs)
  with assms show ?thesis by blast
qed (auto simp: keep_item_def bind_exn_def)

lemma filter_items_total:
  "list_all (\<lambda>d. \<forall>kvs. name d \<noteq> Obj kvs) xs \<Longrightarrow> \<exists>out. filter_items rt xs = Inr out"
proof (induction xs)
  case Nil
  then show ?case by simp
next
  case (Cons x xs)
  then obtain kept where r: "filter_items rt xs = Inr kept"
    by auto
  from Cons.prems have "\<forall>kvs. name x \<noteq> Obj kvs"
    by simp
  from keep_item_total [OF this] obtain b where "keep_item rt x = Inr b"
    by blast
  with r show ?case
    by (simp add: bind_exn_def)
qed

text \<open>
  C9, the code at the input
  \<^verbatim>\<open>{"items":[{"name":{"length":{"toString":1}}}]}\<close>. Extraction succeeds (the name is a
  truthy object, and converting it to a string does not read its \<^verbatim>\<open>length\<close>). The
  filter then compares the name's \<^verbatim>\<open>length\<close> with 2; that value is an object whose own
  \<^verbatim>\<open>toString\<close> is not callable, the comparison throws a \<^verbatim>\<open>TypeError\<close>, and the filter
  stands after the \<^verbatim>\<open>try\<close> statement: \<open>parseOCRResults\<close> throws.
\<close>

theorem C9_filter_throws_outside_try:
  "parseOCRResults rt odd_name_payload menuType = Inl TypeError"
  by (simp add: odd_name_payload_def structured_eval)

subsection \<open>Placeholder names in the structured path\<close>

lemma build_item_name:
  assumes "build_item rt menuType k item = Inr d"
  shows "name d = js_or (field item ''name'')
                    (js_or (field item ''title'') (Str (''Item '' @ dec (k + 1))))"
  using assms unfolding build_item_def bind_exn_def field_def
  by (auto split: sum.splits)

lemma placeholder_kept:
  "name d = Str (''Item '' @ dec n) \<Longrightarrow> keep_item rt d = Inr True"
  by (simp add: keep_item_string)

lemma built_record_name:
  assumes b: "build_item rt menuType k item = Inr d"
  shows "(lacks_name item \<longrightarrow> name d = Str (''Item '' @ dec (k + 1)) \<and> keep_item rt d = Inr True)
       \<and> (keep_item rt d = Inr False \<longrightarrow>
             \<not> lacks_name item
             \<and> name d = js_or (field item ''name'') (field item ''title'')
             \<and> (\<forall>s. name d = Str s \<longrightarrow> length s \<le> 2))"
proof -
  note n = build_item_name [OF b]
  have 1: "name d = Str (''Item '' @ dec (k + 1)) \<and> keep_item rt d = Inr True" if "lacks_name item"
  proof -
    from that n have "name d = Str (''Item '' @ dec (k + 1))"
      by (simp add: lacks_name_def js_or_def)
    then show ?thesis
      by (simp add: placeholder_kept)
  qed
  have 2: "\<not> lacks_name item \<and> name d = js_or (field item ''name'') (field item ''title'')
             \<and> (\<forall>s. name d = Str s \<longrightarrow> length s \<le> 2)" if k: "keep_item rt d = Inr False"
  proof -
    from 1 k have l: "\<not> lacks_name item"
      by auto
    with n have "name d = js_or (field item ''name'') (field item ''title'')"
      by (auto simp: lacks_name_def js_or_def)
    moreover have "length s \<le> 2" if "name d = Str s" for s
      using keep_item_string [OF that, of rt] k by simp
    ultimately show ?thesis
      using l by blast
  qed
  from 1 2 show ?thesis
    by blast
qed

lemma structured_loop_prefix:
  "structured_loop rt menuType k recs acc = (ds, e) \<Longrightarrow>
     \<exists>ds'. ds = acc @ ds' \<and> length ds' \<le> length recs
       \<and> (e = None \<longrightarrow> length ds' = length recs)
       \<and> (\<forall>err. e = Some err \<longrightarrow>
              length ds' < length recs
              \<and> build_item rt menuType (k + length ds') (recs ! length ds') = Inl err)
       \<and> (\<forall>i<length ds'. build_item rt menuType (k + i) (recs ! i) = Inr (ds' ! i))"
proof (induction recs arbitrary: k acc)
  case Nil
  then show ?case by simp
next
  case (Cons r recs)
  show ?case
  proof (cases "build_item rt menuType k r")
    case (Inl e')
    with Cons.prems have "ds = acc" and "e = Some e'"
      by simp_all
    with Inl show ?thesis by simp
  next
    case (Inr d)
    with Cons.prems have "structured_loop rt menuType (k + 1) recs (acc @ [d]) = (ds, e)"
      by simp
    from Cons.IH [OF this] obtain ds' where a: "ds = (acc @ [d]) @ ds'"
      and l: "length ds' \<le> length recs"
      and c: "e = None \<longrightarrow> length ds' = length recs"
      and f: "\<forall>err. e = Some err \<longrightarrow>
                length ds' < length recs
                \<and> build_item rt menuType (k + 1 + length ds') (recs ! length ds') = Inl err"
      and b: "\<forall>i<length ds'. build_item rt menuType (k + 1 + i) (recs ! i) = Inr (ds' ! i)"
      by (elim exE conjE)
    have "build_item rt menuType (k + i) ((r # recs) ! i) = Inr ((d # ds') ! i)"
      if "i < length (d # ds')" for i
    proof (cases i)
      case 0
      with Inr show ?thesis by simp
    next
      case (Suc j)
      with that b show ?thesis by simp
    qed
    with a l c f show ?thesis
      by (intro exI [of _ "d # ds'"]) simp
  qed
qed

lemma extract_items_structured:
  assumes "structured_data_of ocrData = Arr recs" and "recs \<noteq> []"
  shows "extract_items rt ocrData menuType = structured_loop rt menuType 0 recs []"
proof -
  from assms(2) obtain r rs where c: "recs = r # rs"
    by (cases recs) simp_all
  show ?thesis
  proof (cases ocrData)
    case (Obj kvs)
    with assms(1) c show ?thesis
      by (simp add: extract_items_def structured_data_of_def field_def
            del: structured_loop.simps)
  qed (use assms(1) c in \<open>simp_all add: structured_data_of_def field_def js_or_def\<close>)
qed

lemma keep_item_number: "name d = Num n \<Longrightarrow> keep_item rt d = Inr False"
  by (simp add: keep_item_def bind_exn_def)

lemma keep_item_boolean: "name d = Bool b \<Longrightarrow> keep_item rt d = Inr False"
  by (simp add: keep_item_def bind_exn_def)

lemma keep_item_array: "name d = Arr xs \<Longrightarrow> keep_item rt d = Inr (2 < length xs)"
  by (simp add: keep_item_def bind_exn_def)

text \<open>
  C10, as the code has it. On a payload whose structured data is the non-empty array
  \<open>recs\<close>, whenever \<open>parseOCRResults\<close> returns: the structured loop has built one draft
  for each record up to the first record whose extraction throws (all of them when
  none throws; a record at or after a throwing one gets no draft and no placeholder),
  and the result is the list of these drafts that pass the filter. A built record
  whose \<^verbatim>\<open>name\<close> and \<^verbatim>\<open>title\<close> are both absent, empty or otherwise falsy has the name
  \<^verbatim>\<open>Item <position + 1>\<close> and its draft is in the result. A built draft that is not in
  the result carries the record's own name or title, and the test
  \<^verbatim>\<open>name.length > 2\<close> is false of it: a string is kept exactly when it has more than two
  characters, an array exactly when it has more than two elements, and a number or a
  boolean never.
\<close>

theorem C10_placeholder_drafts_in_output:
  assumes sd: "structured_data_of ocrData = Arr recs" and ne: "recs \<noteq> []"
    and p: "parseOCRResults rt ocrData menuType = Inr out"
  shows "\<exists>ds e. structured_loop rt menuType 0 recs [] = (ds, e)
      \<and> out = filter (\<lambda>d. keep_item rt d = Inr True) ds
      \<and> length ds \<le> length recs
      \<and> (e = None \<longrightarrow> length ds = length recs)
      \<and> (\<forall>err. e = Some err \<longrightarrow>
             length ds < length recs
             \<and> build_item rt menuType (length ds) (recs ! length ds) = Inl err)
      \<and> (\<forall>i<length ds.
             build_item rt menuType i (recs ! i) = Inr (ds ! i)
           \<and> (lacks_name (recs ! i) \<longrightarrow>
                name (ds ! i) = Str (''Item '' @ dec (i + 1)) \<and> ds ! i \<in> set out)
           \<and> (ds ! i \<notin> set out \<longrightarrow>
                \<not> lacks_name (recs ! i)
                \<and> name (ds ! i) = js_or (field (recs ! i) ''name'') (field (recs ! i) ''title'')
                \<and> keep_item rt (ds ! i) = Inr False
                \<and> (\<forall>s. name (ds ! i) = Str s \<longrightarrow> length s \<le> 2)))
      \<and> (\<forall>d s. name d = Str s \<longrightarrow> keep_item rt d = Inr (2 < length s))
      \<and> (\<forall>d xs. name d = Arr xs \<longrightarrow> keep_item rt d = Inr (2 < length xs))
      \<and> (\<forall>d n. name d = Num n \<longrightarrow> keep_item rt d = Inr False)
      \<and> (\<forall>d b. name d = Bool b \<longrightarrow> keep_item rt d = Inr False)"
proof -
  let ?kept = "\<lambda>d. keep_item rt d = Inr True"
  obtain ds e where sl: "structured_loop rt menuType 0 recs [] = (ds, e)"
    by (cases "structured_loop rt menuType 0 recs []")
  from extract_items_structured [OF sd ne, of rt menuType] sl
  have "fst (extract_items rt ocrData menuType) = ds"
    by (simp only: fst_conv)
  with p have f: "filter_items rt ds = Inr out"
    by (simp only: parseOCRResults_def)
  from filter_items_eq [OF f] have e1: "out = filter ?kept ds"
    and e2: "\<forall>d\<in>set ds. d \<notin> set out \<longrightarrow> keep_item rt d = Inr False"
    by (rule conjunct1, rule conjunct2)
  from structured_loop_prefix [OF sl]
  have l: "length ds \<le> length recs"
    and c: "e = None \<longrightarrow> length ds = length recs"
    and g: "\<forall>err. e = Some err \<longrightarrow>
             length ds < length recs
             \<and> build_item rt menuType (length ds) (recs ! length ds) = Inl err"
    and b: "\<forall>i<length ds. build_item rt menuType i (recs ! i) = Inr (ds ! i)"
    by simp_all
  have per: "\<forall>i<length ds.
             build_item rt menuType i (recs ! i) = Inr (ds ! i)
           \<and> (lacks_name (recs ! i) \<longrightarrow>
                name (ds ! i) = Str (''Item '' @ dec (i + 1)) \<and> ds ! i \<in> set out)
           \<and> (ds ! i \<notin> set out \<longrightarrow>
                \<not> lacks_name (recs ! i)
                \<and> name (ds ! i) = js_or (field (recs ! i) ''name'') (field (recs ! i) ''title'')
                \<and> keep_item rt (ds ! i) = Inr False
                \<and> (\<forall>s. name (ds ! i) = Str s \<longrightarrow> length s \<le> 2))"
  proof (intro allI impI)
    fix i
    assume i: "i < length ds"
    with b have bi: "build_item rt menuType i (recs ! i) = Inr (ds ! i)"
      by simp
    from i have mem: "ds ! i \<in> set ds"
      by (rule nth_mem)
    from built_record_name [OF bi]
    have n1: "lacks_name (recs ! i) \<longrightarrow>
                name (ds ! i) = Str (''Item '' @ dec (i + 1)) \<and> keep_item rt (ds ! i) = Inr True"
      and n2: "keep_item rt (ds ! i) = Inr False \<longrightarrow>
                \<not> lacks_name (recs ! i)
                \<and> name (ds ! i) = js_or (field (recs ! i) ''name'') (field (recs ! i) ''title'')
                \<and> (\<forall>s. name (ds ! i) = Str s \<longrightarrow> length s \<le> 2)"
      by (rule conjunct1, rule conjunct2)
    have a: "name (ds ! i) = Str (''Item '' @ dec (i + 1)) \<and> ds ! i \<in> set out"
      if ln: "lacks_name (recs ! i)"
    proof -
      from n1 ln have nm: "name (ds ! i) = Str (''Item '' @ dec (i + 1))"
        and k: "keep_item rt (ds ! i) = Inr True"
        by simp_all
      from mem k have "ds ! i \<in> set (filter ?kept ds)"
        by (simp only: set_filter mem_Collect_eq simp_thms)
      with e1 have "ds ! i \<in> set out"
        by (simp only:)
      with nm show ?thesis
        by (rule conjI)
    qed
    have d: "\<not> lacks_name (recs ! i)
                \<and> name (ds ! i) = js_or (field (recs ! i) ''name'') (field (recs ! i) ''title'')
                \<and> keep_item rt (ds ! i) = Inr False
                \<and> (\<forall>s. name (ds ! i) = Str s \<longrightarrow> length s \<le> 2)"
      if no: "ds ! i \<notin> set out"
    proof -
      from e2 mem no have k: "keep_item rt (ds ! i) = Inr False"
        by (elim ballE [of _ _ "ds ! i"]) (simp_all only: simp_thms)
      from n2 k have q: "\<not> lacks_name (recs ! i)
                \<and> name (ds ! i) = js_or (field (recs ! i) ''name'') (field (recs ! i) ''title'')
                \<and> (\<forall>s. name (ds ! i) = Str s \<longrightarrow> length s \<le> 2)"
        by (rule mp)
      from q k show ?thesis
        by (elim conjE) (intro conjI, assumption+)
    qed
    show "build_item rt menuType i (recs ! i) = Inr (ds ! i)
           \<and> (lacks_name (recs ! i) \<longrightarrow>
                name (ds ! i) = Str (''Item '' @ dec (i + 1)) \<and> ds ! i \<in> set out)
           \<and> (ds ! i \<notin> set out \<longrightarrow>
                \<not> lacks_name (recs ! i)
                \<and> name (ds ! i) = js_or (field (recs ! i) ''name'') (field (recs ! i) ''title'')
                \<and> keep_item rt (ds ! i) = Inr False
                \<and> (\<forall>s. name (ds ! i) = Str s \<longrightarrow> length s \<le> 2))"
    proof (intro conjI)
      show "build_item rt menuType i (recs ! i) = Inr (ds ! i)"
        by (rule bi)
      show "lacks_name (recs ! i) \<longrightarrow>
              name (ds ! i) = Str (''Item '' @ dec (i + 1)) \<and> ds ! i \<in> set out"
        by (rule impI) (rule a)
      show "ds ! i \<notin> set out \<longrightarrow>
              \<not> lacks_name (recs ! i)
              \<and> name (ds ! i) = js_or (field (recs ! i) ''name'') (field (recs ! i) ''title'')
              \<and> keep_item rt (ds ! i) = Inr False
              \<and> (\<forall>s. name (ds ! i) = Str s \<longrightarrow> length s \<le> 2)"
        by (rule impI) (rule d)
    qed
  qed
  have k1: "\<forall>d s. name d = Str s \<longrightarrow> keep_item rt d = Inr (2 < length s)"
    by (intro allI impI) (rule keep_item_string)
  have k2: "\<forall>d xs. name d = Arr xs \<longrightarrow> keep_item rt d = Inr (2 < length xs)"
    by (intro allI impI) (rule keep_item_array)
  have k3: "\<forall>d n. name d = Num n \<longrightarrow> keep_item rt d = Inr False"
    by (intro allI impI) (rule keep_item_number)
  have k4: "\<forall>d b. name d = Bool b \<longrightarrow> keep_item rt d = Inr False"
    by (intro allI impI) (rule keep_item_boolean)
  from sl e1 l c g per k1 k2 k3 k4 show ?thesis
    by (intro exI [of _ ds] exI [of _ e] conjI)
qed

lemma nameless_payload_parsed:
  "\<exists>out. parseOCRResults rt nameless_payload menuType = Inr out
      \<and> map name out = [Str (''Item '' @ dec (Suc 0))]"
  by (simp add: nameless_payload_def nameless_records_def structured_eval)

lemma nameless_payload_records:
  "structured_data_of nameless_payload = Arr nameless_records \<and> nameless_records \<noteq> []
   \<and> lacks_name (nameless_records ! 0)"
  by (simp add: structured_data_of_def nameless_payload_def nameless_records_def field_def
        js_or_def lacks_name_def)

theorem C10_placeholder_drafts_in_output_witness:
  "\<exists>out. structured_data_of nameless_payload = Arr nameless_records
      \<and> nameless_records \<noteq> []
      \<and> parseOCRResults sample_runtime nameless_payload ''wine_list'' = Inr out
      \<and> lacks_name (nameless_records ! 0)
      \<and> map name out = [Str ''Item 1'']
      \<and> (\<exists>ds e. structured_loop sample_runtime ''wine_list'' 0 nameless_records [] = (ds, e)
             \<and> out = filter (\<lambda>d. keep_item sample_runtime d = Inr True) ds
             \<and> name (ds ! 0) = Str ''Item 1''
             \<and> ds ! 0 \<in> set out)"
proof -
  from nameless_payload_parsed [of sample_runtime "''wine_list''"]
  obtain out where p: "parseOCRResults sample_runtime nameless_payload ''wine_list'' = Inr out"
    and n: "map name out = [Str (''Item '' @ dec (Suc 0))]"
    by (elim exE conjE)
  from nameless_payload_records
  have sd: "structured_data_of nameless_payload = Arr nameless_records"
    and ne: "nameless_records \<noteq> []"
    and ln: "lacks_name (nameless_records ! 0)"
    by simp_all
  from C10_placeholder_drafts_in_output [OF sd ne p]
  obtain ds e where sl: "structured_loop sample_runtime ''wine_list'' 0 nameless_records [] = (ds, e)"
    and e1: "out = filter (\<lambda>d. keep_item sample_runtime d = Inr True) ds"
    and per: "\<forall>i<length ds.
             build_item sample_runtime ''wine_list'' i (nameless_records ! i) = Inr (ds ! i)
           \<and> (lacks_name (nameless_records ! i) \<longrightarrow>
                name (ds ! i) = Str (''Item '' @ dec (i + 1)) \<and> ds ! i \<in> set out)
           \<and> (ds ! i \<notin> set out \<longrightarrow>
                \<not> lacks_name (nameless_records ! i)
                \<and> name (ds ! i)
                    = js_or (field (nameless_records ! i) ''name'')
                        (field (nameless_records ! i) ''title'')
                \<and> keep_item sample_runtime (ds ! i) = Inr False
                \<and> (\<forall>s. name (ds ! i) = Str s \<longrightarrow> length s \<le> 2))"
    by (elim exE conjE)
  from n have "out \<noteq> []"
    by (cases out) simp_all
  with e1 have "ds \<noteq> []"
    by (cases ds) simp_all
  then have z: "0 < length ds"
    by simp
  note q = per [rule_format, OF z]
  from q have "lacks_name (nameless_records ! 0) \<longrightarrow>
                name (ds ! 0) = Str (''Item '' @ dec (0 + 1)) \<and> ds ! 0 \<in> set out"
    by (elim conjE)
  from this ln have "name (ds ! 0) = Str (''Item '' @ dec (0 + 1)) \<and> ds ! 0 \<in> set out"
    by (rule mp)
  then have "name (ds ! 0) = Str (''Item '' @ dec (0 + 1))" and m: "ds ! 0 \<in> set out"
    by (rule conjunct1, rule conjunct2)
  then have a: "name (ds ! 0) = Str ''Item 1''"
    by (simp add: dec_small)
  from n have n': "map name out = [Str ''Item 1'']"
    by (simp add: dec_small)
  from sl e1 a m
  have "\<exists>ds e. structured_loop sample_runtime ''wine_list'' 0 nameless_records [] = (ds, e)
             \<and> out = filter (\<lambda>d. keep_item sample_runtime d = Inr True) ds
             \<and> name (ds ! 0) = Str ''Item 1''
             \<and> ds ! 0 \<in> set out"
    by (intro exI [of _ ds] exI [of _ e] conjI)
  with sd ne p ln n'
  have "structured_data_of nameless_payload = Arr nameless_records
      \<and> nameless_records \<noteq> []
      \<and> parseOCRResults sample_runtime nameless_payload ''wine_list'' = Inr out
      \<and> lacks_name (nameless_records ! 0)
      \<and> map name out = [Str ''Item 1'']
      \<and> (\<exists>ds e. structured_loop sample_runtime ''wine_list'' 0 nameless_records [] = (ds, e)
             \<and> out = filter (\<lambda>d. keep_item sample_runtime d = Inr True) ds
             \<and> name (ds ! 0) = Str ''Item 1''
             \<and> ds ! 0 \<in> set out)"
    by (intro conjI)
  then show ?thesis
    by (rule exI [of _ out])
qed

lemma numeric_name_dropped:
  "parseOCRResults rt numeric_name_payload menuType = Inr []"
  by (simp add: numeric_name_payload_def structured_eval)

lemma unbuildable_record_lost:
  "parseOCRResults rt unbuildable_payload menuType = Inr []"
  by (simp add: unbuildable_payload_def unbuildable_record_def structured_eval)

lemma counterexample_records:
  "structured_data_of numeric_name_payload = Arr [Obj [(''name'', Num (Fin 1837))]]
   \<and> structured_data_of unbuildable_payload = Arr [unbuildable_record]
   \<and> lacks_name unbuildable_record"
  by (simp add: structured_data_of_def numeric_name_payload_def unbuildable_payload_def
        unbuildable_record_def field_def js_or_def lacks_name_def)

text \<open>
  C10, as the claim states it, fails twice. The record \<^verbatim>\<open>{"name": 1837}\<close> carries an
  explicit name that is no string of length at most 2, and it is dropped: a number has
  no \<^verbatim>\<open>length\<close>. The record \<^verbatim>\<open>{"description": {"toString": 1}}\<close> has neither name nor
  title, and it gets no placeholder and no draft: building its tags throws, and the
  result is empty.
\<close>

theorem C10_dropped_records_counterexample:
  "structured_data_of numeric_name_payload = Arr [Obj [(''name'', Num (Fin 1837))]]
   \<and> parseOCRResults sample_runtime numeric_name_payload ''wine_list'' = Inr []
   \<and> structured_data_of unbuildable_payload = Arr [unbuildable_record]
   \<and> lacks_name unbuildable_record
   \<and> parseOCRResults sample_runtime unbuildable_payload ''wine_list'' = Inr []"
  by (simp only: counterexample_records numeric_name_dropped unbuildable_record_lost simp_thms)

subsection \<open>BulkUpsertCoordinator\<close>

lemma logMenuUpdate_audit:
  "filter is_audit (logMenuUpdate w actor mtype opn cnt ids tr)
     = filter is_audit tr
       @ [AuditInsert \<lparr> user_id = actor, menu_type = mtype, operation = opn, items_count = cnt,
                        items_ids = ids,
                        logged_at = toISOString (runtime_of w) (audit_time w) \<rparr>]"
  by (simp add: logMenuUpdate_def Let_def is_audit_def split: sum.splits option.splits)

text \<open>
  C2. When the storage write succeeds, \<open>bulkUpsertMenuItems\<close> returns the data the
  storage reported, whatever the audit insertion does (\<open>f\<close> is any behaviour of the
  audit store, rejection and reported error included), and the call adds exactly one
  audit insertion to the trace: operation \<^verbatim>\<open>bulk_update\<close>, the number of items and their
  identifiers, for the given user and menu type.
\<close>

theorem C2_one_audit_attempt_result_unaffected:
  assumes "upsert_reply w items = Inr (data, None)"
  shows "fst (bulkUpsertMenuItems (w\<lparr>insert_reply := f\<rparr>) items userId menuType tr) = Inr data
       \<and> filter is_audit (snd (bulkUpsertMenuItems (w\<lparr>insert_reply := f\<rparr>) items userId menuType tr))
           = filter is_audit tr
             @ [AuditInsert \<lparr> user_id = userId, menu_type = menuType,
                              operation = ''bulk_update'', items_count = length items,
                              items_ids = map item_id items,
                              logged_at = toISOString (runtime_of w) (audit_time w) \<rparr>]"
  using assms
  by (simp add: bulkUpsertMenuItems_def Let_def logMenuUpdate_audit is_audit_def)

theorem C2_one_audit_attempt_result_unaffected_witness:
  "upsert_reply (sample_world Null) [sample_item] = Inr (Some [sample_item], None)
   \<and> fst (bulkUpsertMenuItems
            ((sample_world Null)\<lparr>insert_reply := (\<lambda>row. Inl (ExtError ''audit store unavailable''))\<rparr>)
            [sample_item] ''u1'' ''wine_list'' []) = Inr (Some [sample_item])"
proof -
  have h: "upsert_reply (sample_world Null) [sample_item] = Inr (Some [sample_item], None)"
    by (simp add: sample_world_def)
  from C2_one_audit_attempt_result_unaffected [OF h] h show ?thesis
    by (intro conjI) (rule h, rule conjunct1)
qed

subsection \<open>The handler: validation and the empty result\<close>

lemma constructor_accepted: "mapping_truthy ''constructor''"
  by (simp add: mapping_truthy_def MENU_TYPE_MAPPING_def object_prototype_keys_def)

text \<open>What the handler rejects before the \<^verbatim>\<open>try\<close> statement, with no call made.\<close>

lemma validation_rejects:
  assumes "req_file req = None \<or> body_menuType req = None \<or> body_menuType req = Some []
           \<or> (\<exists>m. body_menuType req = Some m \<and> \<not> mapping_truthy m)"
  shows "\<exists>msg. process_handler w req = (Inl (AppError msg 400), [])"
  using assms
  by (auto simp: process_handler_def split: option.splits)

lemmas handler_eval =
  process_handler_def try_block_def after_ocr_def sample_world_def sample_request_def
  mapping_truthy_def MENU_TYPE_MAPPING_def object_prototype_keys_def

lemma two_records_handled:
  "fst (process_handler (sample_world two_record_payload) (sample_request ''constructor''))
     = Inr (Success ''constructor'' 1 1 900
              [\<lparr> s_id = ''constructor_ocr_1700000000001_1'', s_name = Str ''Merlot'',
                  s_price = None, s_category = ''constructor'' \<rparr>]
              ''Successfully processed 1 menu items'')"
  by (simp add: handler_eval structured_eval two_record_payload_def bulkUpsertMenuItems_def
        logMenuUpdate_def deploy_hook_def summarize_def sample_runtime_def
        dec.simps digit_char_def tags_of_text_def push_if_def)

lemma two_records_ocr_called:
  "filter is_ocr_call (snd (process_handler (sample_world two_record_payload)
                              (sample_request ''constructor''))) = [OcrCall ''jpeg'']"
  by (simp add: handler_eval structured_eval two_record_payload_def bulkUpsertMenuItems_def
        logMenuUpdate_def deploy_hook_def is_ocr_call_def sample_runtime_def
        tags_of_text_def push_if_def)

text \<open>
  C3, the code at a request with a file and the menu type \<^verbatim>\<open>constructor\<close>, which is none
  of the four categories. \<^verbatim>\<open>MENU_TYPE_MAPPING['constructor']\<close> is the inherited
  \<^verbatim>\<open>Object\<close> function, which is truthy: no error is raised, the recognition service is
  called, and the item is stored under the category \<^verbatim>\<open>constructor\<close>.
\<close>

theorem C3_inherited_key_passes_validation:
  "fst (process_handler (sample_world two_record_payload) (sample_request ''constructor''))
     = Inr (Success ''constructor'' 1 1 900
              [\<lparr> s_id = ''constructor_ocr_1700000000001_1'', s_name = Str ''Merlot'',
                  s_price = None, s_category = ''constructor'' \<rparr>]
              ''Successfully processed 1 menu items'')
   \<and> filter is_ocr_call (snd (process_handler (sample_world two_record_payload)
                                 (sample_request ''constructor''))) = [OcrCall ''jpeg'']"
  by (simp only: two_records_handled two_records_ocr_called simp_thms)

lemma handler_eval_null:
  "parseOCRResults rt Null menuType = Inr []"
  by (simp add: parseOCRResults_def extract_items_def)

lemma soft_failure_when_text_readable:
  assumes "parseOCRResults (runtime_of w) ocrData menuType = Inr []"
    and "get_prop ocrData ''text'' = Inr t"
  shows "fst (after_ocr w u menuType ocrData tr)
           = Inr (SoftFailure ''No menu items could be extracted from the image''
                    (js_or t (Str [])) suggestions)
       \<and> filter is_upsert (snd (after_ocr w u menuType ocrData tr)) = filter is_upsert tr"
  using assms
  by (simp add: after_ocr_def Let_def is_upsert_def split: option.splits)

lemma null_payload_no_upsert:
  "filter is_upsert (snd (process_handler (sample_world Null) (sample_request ''wine_list''))) = []"
  by (simp add: handler_eval handler_eval_null extract_items_def is_upsert_def)

lemma null_payload_raises:
  "fst (process_handler (sample_world Null) (sample_request ''wine_list'')) = Inl TypeError"
  by (simp add: handler_eval handler_eval_null extract_items_def)

text \<open>
  When the recognised text arrives as \<^verbatim>\<open>extracted_text\<close>, the soft-failure response
  reports the empty string: the handler reads \<^verbatim>\<open>ocrData.text\<close> only.
\<close>

lemma extracted_text_not_reported:
  "fst (process_handler (sample_world (Obj [(''extracted_text'', Str ''Bar'')]))
          (sample_request ''wine_list''))
     = Inr (SoftFailure ''No menu items could be extracted from the image'' (Str []) suggestions)"
  by (simp add: handler_eval parseOCRResults_def extract_items_def js_or_def text_eval)

text \<open>
  C4, the code when the recognition service answers with the JSON value \<^verbatim>\<open>null\<close>.
  \<open>parseOCRResults\<close> catches the failed property read and yields no drafts; the handler
  then evaluates \<^verbatim>\<open>ocrData.text\<close> to build the soft-failure response, which throws a
  \<^verbatim>\<open>TypeError\<close>. The handler raises it (after alerting) instead of answering
  \<^verbatim>\<open>success = false\<close>. Persistence is not invoked.
\<close>

theorem C4_null_payload_raises:
  "parseOCRResults sample_runtime Null ''wine_list'' = Inr []
   \<and> fst (process_handler (sample_world Null) (sample_request ''wine_list'')) = Inl TypeError
   \<and> filter is_upsert (snd (process_handler (sample_world Null) (sample_request ''wine_list''))) = []"
  by (simp only: handler_eval_null null_payload_raises null_payload_no_upsert simp_thms)

end
